theory Spec2Isabelle
  imports Main "HOL-Library.Sublist"
begin

section \<open>Repository descriptors and source-name derivation\<close>

text \<open>
  The model follows \<^verbatim>\<open>.github/lib/fork-and-import.js\<close> (the variant that creates
  independent repositories). JavaScript strings are modelled as \<^typ>\<open>string\<close>; the
  repository names the script handles are ASCII.
\<close>

record repo =
  resourceName :: string
  name :: string
  sourceName :: string

text \<open>
  \<^verbatim>\<open>targetRepoName.replace(/^cdktn-/, 'cdktf-')\<close>: the pattern is anchored at the start
  of the input and has no flags, so at most the leading occurrence is replaced.
\<close>

definition getSourceRepoName :: "string \<Rightarrow> string" where
  "getSourceRepoName targetRepoName =
     (if prefix ''cdktn-'' targetRepoName
      then ''cdktf-'' @ drop (length ''cdktn-'') targetRepoName
      else targetRepoName)"

text \<open>
  The inverse substitution the specification speaks of (it does not occur in the script):
  put the prefix \<^verbatim>\<open>cdktn-\<close> back in place of a leading \<^verbatim>\<open>cdktf-\<close>.
\<close>

definition restoreTargetRepoName :: "string \<Rightarrow> string" where
  "restoreTargetRepoName sourceRepoName =
     (if prefix ''cdktf-'' sourceRepoName
      then ''cdktn-'' @ drop (length ''cdktf-'') sourceRepoName
      else sourceRepoName)"

section \<open>Filter\<close>

text \<open>
  \<^verbatim>\<open>filterRepositories(repos, onlyRepos, excludeRepos)\<close>: \<^verbatim>\<open>onlyRepos\<close> is an array or
  \<^verbatim>\<open>null\<close>, \<^verbatim>\<open>excludeRepos\<close> an array. Each filter is applied only when its array
  is non-empty. The warning about names not found is console output and is returned
  separately by \<open>notFound\<close>.
\<close>

definition filterRepositories :: "repo list \<Rightarrow> string list option \<Rightarrow> string list \<Rightarrow> repo list" where
  "filterRepositories repos onlyRepos excludeRepos =
     (let filtered =
            (case onlyRepos of
               None \<Rightarrow> repos
             | Some only \<Rightarrow>
                 if length only > 0 then filter (\<lambda>r. name r \<in> set only) repos else repos)
      in if length excludeRepos > 0
         then filter (\<lambda>r. name r \<notin> set excludeRepos) filtered
         else filtered)"

definition notFound :: "repo list \<Rightarrow> string list \<Rightarrow> string list" where
  "notFound filtered only = filter (\<lambda>n. n \<notin> set (map name filtered)) only"

section \<open>The configuration snapshot\<close>

text \<open>
  The parsed \<^verbatim>\<open>cdk.tf.json\<close>: \<^verbatim>\<open>resource\<close> maps a resource type to the
  resources of that type, each with its configuration. Only \<^verbatim>\<open>config.name\<close> is
  read, so a configuration is its \<^verbatim>\<open>name\<close> entry (\<open>None\<close> when the entry is
  missing, which makes \<^verbatim>\<open>undefined.replace\<close> throw a TypeError). Objects
  are association lists in the order of \<^verbatim>\<open>Object.entries\<close>.
\<close>

type_synonym resources = "(string \<times> string option) list"

record cdk_tf_json =
  resource :: "(string \<times> resources) list option"

text \<open>\<^verbatim>\<open>cdkTfJson.resource?.github_repository || {}\<close>\<close>

definition githubRepos :: "cdk_tf_json \<Rightarrow> resources" where
  "githubRepos cdkTfJson =
     (case resource cdkTfJson of
        None \<Rightarrow> []
      | Some res \<Rightarrow> (case map_of res ''github_repository'' of None \<Rightarrow> [] | Some rs \<Rightarrow> rs))"

section \<open>Effects: commands, their outcomes and the history of a run\<close>

datatype dir = TempDir | RepoGit | OriginalDir

datatype call =
    ApiGetSource string \<comment> \<open>\<^verbatim>\<open>gh api /repos/cdktf/<name> --silent\<close>\<close>
  | ApiGetTarget string \<comment> \<open>\<^verbatim>\<open>gh api /repos/cdktn-io/<name> --silent\<close>\<close>
  | RepoCreate string \<comment> \<open>\<^verbatim>\<open>gh repo create cdktn-io/<name> --public\<close>\<close>
  | RepoDelete string \<comment> \<open>\<^verbatim>\<open>gh repo delete cdktn-io/<name> --yes\<close>\<close>
  | PutActionsPermissions string bool
      \<comment> \<open>\<^verbatim>\<open>gh api -X PUT /repos/cdktn-io/<name>/actions/permissions\<close>, field \<^verbatim>\<open>enabled\<close>\<close>
  | PutWorkflowPermissions string
      \<comment> \<open>\<^verbatim>\<open>gh api -X PUT /repos/cdktn-io/<name>/actions/permissions/workflow\<close>
          with \<^verbatim>\<open>can_approve_pull_request_reviews\<close> true\<close>
  | Mktemp \<comment> \<open>\<^verbatim>\<open>mktemp -d\<close>\<close>
  | Chdir dir \<comment> \<open>\<^verbatim>\<open>process.chdir\<close>\<close>
  | RmRf \<comment> \<open>\<^verbatim>\<open>rm -rf <tempDir>\<close>\<close>
  | GitCloneBare string \<comment> \<open>\<^verbatim>\<open>git clone --bare https://github.com/cdktf/<name>.git repo.git\<close>\<close>
  | GitRemoteAdd string \<comment> \<open>\<^verbatim>\<open>git remote add cdktn-io https://github.com/cdktn-io/<name>.git\<close>\<close>
  | GitPushMirror \<comment> \<open>\<^verbatim>\<open>git push --mirror cdktn-io\<close>\<close>
  | GhRepoClone string \<comment> \<open>\<^verbatim>\<open>gh repo clone cdktn-io/<name> . -- --quiet\<close>\<close>
  | FindWorkflows \<comment> \<open>\<^verbatim>\<open>find .github/workflows -name "*.yml" 2>/dev/null || true\<close>\<close>
  | WriteFile string string \<comment> \<open>\<^verbatim>\<open>fs.writeFileSync(file, newContent)\<close> in the clone\<close>
  | GitConfigName
  | GitConfigEmail
  | GitAdd \<comment> \<open>\<^verbatim>\<open>git add .github/workflows/*.yml\<close>\<close>
  | GitCommit
  | GitPush \<comment> \<open>\<^verbatim>\<open>git push origin main --quiet\<close>\<close>
  | Sleep nat \<comment> \<open>\<^verbatim>\<open>setTimeout\<close>, milliseconds\<close>
  | WriteImportTf string \<comment> \<open>\<^verbatim>\<open>fs.writeFileSync(importPath, importBlocks)\<close>\<close>

datatype js_error = CommandFailed call | CreationTimeout | TypeError

text \<open>
  The working tree a clone yields: the content \<^verbatim>\<open>fs.readFileSync\<close> returns for a path
  (\<open>None\<close> when the read throws) and the lines \<^verbatim>\<open>find\<close> prints.
\<close>

record tree =
  content :: "string \<Rightarrow> string option"
  workflows :: "string list"

text \<open>
  Everything outside the script. Whether a command succeeds may depend on all commands
  issued before it (\<open>succeeds\<close> takes the history); \<open>checkout\<close> is the tree that
  cloning a target repository gives, \<open>now\<close> the value of
  \<^verbatim>\<open>new Date().toISOString()\<close>.
\<close>

record world =
  succeeds :: "call list \<Rightarrow> call \<Rightarrow> bool"
  checkout :: "string \<Rightarrow> tree"
  now :: string

text \<open>\<^verbatim>\<open>execSync\<close>: the command is issued, then it returns or throws.\<close>

definition exec :: "world \<Rightarrow> call list \<Rightarrow> call \<Rightarrow> bool \<times> call list" where
  "exec w h c = (succeeds w h c, h @ [c])"

text \<open>A straight-line block of commands: the first failure throws and skips the rest.\<close>

fun execAll :: "world \<Rightarrow> call list \<Rightarrow> call list \<Rightarrow> (js_error + unit) \<times> call list" where
  "execAll w [] h = (Inr (), h)"
| "execAll w (c # cs) h =
     (if succeeds w h c then execAll w cs (h @ [c]) else (Inl (CommandFailed c), h @ [c]))"

section \<open>Desired-state extractor\<close>

text \<open>
  \<^verbatim>\<open>parseCdkTfJson\<close>: one descriptor per entry of the repository collection, in
  order; \<open>repos\<close> is the array built so far.
\<close>

fun parseEntries :: "resources \<Rightarrow> repo list \<Rightarrow> js_error + repo list" where
  "parseEntries [] repos = Inr repos"
| "parseEntries ((rn, config) # entries) repos =
     (case config of
        None \<Rightarrow> Inl TypeError
      | Some targetName \<Rightarrow>
          parseEntries entries
            (repos @ [\<lparr>resourceName = rn, name = targetName,
                       sourceName = getSourceRepoName targetName\<rparr>]))"

definition parseCdkTfJson :: "cdk_tf_json \<Rightarrow> js_error + repo list" where
  "parseCdkTfJson cdkTfJson = parseEntries (githubRepos cdkTfJson) []"

section \<open>State prober\<close>

datatype action = Fork | CreateFresh

record repo_state = repo +
  sourceExists :: bool
  targetExists :: bool
  action :: action

definition checkSourceRepo :: "world \<Rightarrow> string \<Rightarrow> call list \<Rightarrow> bool \<times> call list" where
  "checkSourceRepo w sourceRepoName h = exec w h (ApiGetSource sourceRepoName)"

definition checkTargetRepo :: "world \<Rightarrow> string \<Rightarrow> call list \<Rightarrow> bool \<times> call list" where
  "checkTargetRepo w repoName h = exec w h (ApiGetTarget repoName)"

text \<open>
  The loop \<^verbatim>\<open>for (const repo of filteredRepos)\<close> of \<^verbatim>\<open>main\<close>; its state is
  \<^verbatim>\<open>results\<close>, \<^verbatim>\<open>hasConflicts\<close> and the history.
\<close>

fun probe :: "world \<Rightarrow> repo list \<Rightarrow> repo_state list \<times> bool \<times> call list
    \<Rightarrow> repo_state list \<times> bool \<times> call list" where
  "probe w [] s = s"
| "probe w (r # rs) (results, hasConflicts, h) =
     (let (srcExists, h1) = checkSourceRepo w (sourceName r) h;
          (tgtExists, h2) = checkTargetRepo w (name r) h1;
          hasConflicts' = (if tgtExists then True else hasConflicts)
      in probe w rs
           (results @
              [\<lparr>resourceName = resourceName r, name = name r, sourceName = sourceName r,
                sourceExists = srcExists, targetExists = tgtExists,
                action = (if srcExists then Fork else CreateFresh)\<rparr>],
            hasConflicts', h2))"

section \<open>Migration pipeline\<close>

definition maxAttempts :: nat where
  "maxAttempts = 10"

text \<open>
  The polling loop of \<^verbatim>\<open>createEmptyRepository\<close>: up to \<open>maxAttempts\<close> queries of the
  new repository, two seconds apart; running out of attempts throws.
\<close>

function pollRepository :: "world \<Rightarrow> string \<Rightarrow> nat \<Rightarrow> call list \<Rightarrow> (js_error + bool) \<times> call list" where
  "pollRepository w targetRepoName attempts h =
     (if attempts < maxAttempts
      then (if succeeds w h (ApiGetTarget targetRepoName)
            then (Inr True, h @ [ApiGetTarget targetRepoName])
            else pollRepository w targetRepoName (attempts + 1)
                   (h @ [ApiGetTarget targetRepoName, Sleep 2000]))
      else (Inl CreationTimeout, h))"
  by pat_completeness auto
termination
  by (relation "measure (\<lambda>(w, n, attempts, h). maxAttempts - attempts)") auto

definition createEmptyRepository :: "world \<Rightarrow> string \<Rightarrow> call list \<Rightarrow> (js_error + bool) \<times> call list" where
  "createEmptyRepository w targetRepoName h =
     (if succeeds w h (RepoCreate targetRepoName)
      then pollRepository w targetRepoName 0 (h @ [RepoCreate targetRepoName])
      else (Inl (CommandFailed (RepoCreate targetRepoName)), h @ [RepoCreate targetRepoName]))"

text \<open>
  The three permission setters catch every error of their command and only warn, so they
  return to the caller whatever the outcome.
\<close>

definition disableGitHubActions :: "world \<Rightarrow> string \<Rightarrow> call list \<Rightarrow> call list" where
  "disableGitHubActions w targetRepoName h =
     snd (exec w h (PutActionsPermissions targetRepoName False))"

definition enableGitHubActions :: "world \<Rightarrow> string \<Rightarrow> call list \<Rightarrow> call list" where
  "enableGitHubActions w targetRepoName h =
     snd (exec w h (PutActionsPermissions targetRepoName True))"

definition enableActionsToApprovePRs :: "world \<Rightarrow> string \<Rightarrow> call list \<Rightarrow> call list" where
  "enableActionsToApprovePRs w targetRepoName h =
     snd (exec w h (PutWorkflowPermissions targetRepoName))"

text \<open>
  \<^verbatim>\<open>migrateRepositoryHistory\<close>: \<^verbatim>\<open>mktemp\<close> runs before the \<^verbatim>\<open>try\<close>; the
  \<^verbatim>\<open>finally\<close> block runs after the body on every path, and an error thrown there
  replaces the outcome of the body.
\<close>

definition migrateRepositoryHistory ::
    "world \<Rightarrow> string \<Rightarrow> string \<Rightarrow> call list \<Rightarrow> (js_error + unit) \<times> call list" where
  "migrateRepositoryHistory w sourceRepoName targetRepoName h =
     (if \<not> succeeds w h Mktemp then (Inl (CommandFailed Mktemp), h @ [Mktemp])
      else
        (let (body, h1) =
               execAll w [Chdir TempDir, GitCloneBare sourceRepoName, Chdir RepoGit,
                          GitRemoteAdd targetRepoName, GitPushMirror] (h @ [Mktemp]);
             (cleanup, h2) = execAll w [Chdir OriginalDir, RmRf] h1
         in (case cleanup of Inl e \<Rightarrow> (Inl e, h2) | Inr u \<Rightarrow> (body, h2))))"

text \<open>
  \<^verbatim>\<open>createIndependentRepository\<close>: an error of step 1 or step 3 reaches the
  \<^verbatim>\<open>catch\<close>, which tries to delete the target repository (ignoring the outcome of
  the deletion) and throws the error again.
\<close>

definition cleanupPartial :: "world \<Rightarrow> string \<Rightarrow> js_error \<Rightarrow> call list \<Rightarrow> (js_error + bool) \<times> call list" where
  "cleanupPartial w targetRepoName e h = (Inl e, snd (exec w h (RepoDelete targetRepoName)))"

definition createIndependentRepository ::
    "world \<Rightarrow> string \<Rightarrow> string \<Rightarrow> call list \<Rightarrow> (js_error + bool) \<times> call list" where
  "createIndependentRepository w sourceRepoName targetRepoName h =
     (case createEmptyRepository w targetRepoName h of
        (Inl e, h1) \<Rightarrow> cleanupPartial w targetRepoName e h1
      | (Inr b, h1) \<Rightarrow>
          (let h2 = disableGitHubActions w targetRepoName h1 in
           case migrateRepositoryHistory w sourceRepoName targetRepoName h2 of
             (Inl e, h3) \<Rightarrow> cleanupPartial w targetRepoName e h3
           | (Inr u, h3) \<Rightarrow> (Inr True, h3)))"

section \<open>Reference rewriting\<close>

text \<open>\<^verbatim>\<open>content.includes(pat)\<close>\<close>

fun includes_str :: "string \<Rightarrow> string \<Rightarrow> bool" where
  "includes_str [] pat = (pat = [])"
| "includes_str (c # cs) pat = (prefix pat (c # cs) \<or> includes_str cs pat)"

text \<open>
  \<^verbatim>\<open>content.replaceAll(pat, rep)\<close> for a literal, non-empty pattern and a replacement
  without \<^verbatim>\<open>$\<close>: occurrences are replaced from left to right, without overlap.
\<close>

function replaceAll :: "string \<Rightarrow> string \<Rightarrow> string \<Rightarrow> string" where
  "replaceAll [] pat rep = []"
| "replaceAll (c # cs) pat rep =
     (if pat \<noteq> [] \<and> prefix pat (c # cs)
      then rep @ replaceAll (drop (length pat) (c # cs)) pat rep
      else c # replaceAll cs pat rep)"
  by pat_completeness auto
termination
  by (relation "measure (\<lambda>(s, pat, rep). length s)") auto

definition OLD_TEAM :: string where "OLD_TEAM = ''team-tf-cdk''"
definition OLD_EMAIL :: string where "OLD_EMAIL = ''github-team-tf-cdk@hashicorp.com''"
definition NEW_TEAM :: string where "NEW_TEAM = ''team-cdk-terrain[bot]''"
definition APP_USER_ID :: string where "APP_USER_ID = ''254218809''"
definition NEW_EMAIL :: string where
  "NEW_EMAIL = ''<'' @ APP_USER_ID @ ''-'' @ NEW_TEAM @ ''@users.noreply.github.com>''"
definition codeOwnersFile :: string where "codeOwnersFile = ''.github/CODEOWNERS''"

text \<open>
  The CODEOWNERS block: any error of the read or of the write skips the rest of the block;
  otherwise the file is written and \<^verbatim>\<open>filesChanged\<close> is incremented, whatever the
  content was.
\<close>

definition fixCodeOwners :: "world \<Rightarrow> tree \<times> call list \<times> nat \<Rightarrow> tree \<times> call list \<times> nat" where
  "fixCodeOwners w s =
     (case s of (t, h, filesChanged) \<Rightarrow>
        (case content t codeOwnersFile of
           None \<Rightarrow> (t, h, filesChanged)
         | Some c \<Rightarrow>
             (let newContent = replaceAll c ''@cdktf/tf-cdk-team'' ''@cdktn-io/team-cdk-terrain'' in
              if succeeds w h (WriteFile codeOwnersFile newContent)
              then (t\<lparr>content := (content t)(codeOwnersFile \<mapsto> newContent)\<rparr>,
                    h @ [WriteFile codeOwnersFile newContent], filesChanged + 1)
              else (t, h @ [WriteFile codeOwnersFile newContent], filesChanged))))"

text \<open>The loop over the workflow files; a file that cannot be read or written is skipped.\<close>

fun fixWorkflowFiles :: "world \<Rightarrow> string list \<Rightarrow> tree \<times> call list \<times> nat \<Rightarrow> tree \<times> call list \<times> nat" where
  "fixWorkflowFiles w [] s = s"
| "fixWorkflowFiles w (file # files) (t, h, filesChanged) =
     (case content t file of
        None \<Rightarrow> fixWorkflowFiles w files (t, h, filesChanged)
      | Some c \<Rightarrow>
          if includes_str c OLD_TEAM \<or> includes_str c OLD_EMAIL
          then (let newContent = replaceAll (replaceAll c OLD_TEAM NEW_TEAM) OLD_EMAIL NEW_EMAIL in
                if succeeds w h (WriteFile file newContent)
                then fixWorkflowFiles w files
                       (t\<lparr>content := (content t)(file \<mapsto> newContent)\<rparr>,
                        h @ [WriteFile file newContent], filesChanged + 1)
                else fixWorkflowFiles w files (t, h @ [WriteFile file newContent], filesChanged))
          else fixWorkflowFiles w files (t, h, filesChanged))"

text \<open>
  The inner \<^verbatim>\<open>try\<close> block of \<^verbatim>\<open>fixTeamNames\<close>, from \<^verbatim>\<open>process.chdir(tempDir)\<close>
  to the push. It returns the tree it leaves in the temporary directory (\<open>None\<close> when
  the clone failed).
\<close>

definition fixTeamNamesBody ::
    "world \<Rightarrow> string \<Rightarrow> call list \<Rightarrow> (js_error + unit) \<times> tree option \<times> call list" where
  "fixTeamNamesBody w repoName h =
     (case execAll w [Chdir TempDir, GhRepoClone repoName] h of
        (Inl e, h1) \<Rightarrow> (Inl e, None, h1)
      | (Inr u, h1) \<Rightarrow>
          (let (t1, h2, n1) = fixCodeOwners w (checkout w repoName, h1, 0);
               workflowFiles = filter (\<lambda>f. f \<noteq> []) (workflows t1);
               h3 = h2 @ [FindWorkflows]
           in if length workflowFiles = 0 then (Inr (), Some t1, h3)
              else
                (let (t2, h4, n2) = fixWorkflowFiles w workflowFiles (t1, h3, n1)
                 in if n2 = 0 then (Inr (), Some t2, h4)
                    else
                      (case execAll w [GitConfigName, GitConfigEmail, GitAdd, GitCommit, GitPush] h4 of
                         (res, h5) \<Rightarrow> (res, Some t2, h5)))))"

text \<open>
  \<^verbatim>\<open>fixTeamNames\<close>: the \<^verbatim>\<open>finally\<close> block restores the directory and removes the
  temporary one; the outer \<^verbatim>\<open>catch\<close> swallows every error, so the function always
  returns.
\<close>

definition fixTeamNames :: "world \<Rightarrow> string \<Rightarrow> call list \<Rightarrow> call list" where
  "fixTeamNames w repoName h =
     (if \<not> succeeds w h Mktemp then h @ [Mktemp]
      else
        (case fixTeamNamesBody w repoName (h @ [Mktemp]) of
           (res, t, h1) \<Rightarrow> snd (execAll w [Chdir OriginalDir, RmRf] h1)))"

text \<open>
  The loop \<^verbatim>\<open>for (let i = 0; i < toFork.length; i++)\<close> of \<^verbatim>\<open>main\<close>, as a recursion
  over the repositories still to do: \<^verbatim>\<open>i < toFork.length - 1\<close> holds exactly when
  others remain. An error of \<^verbatim>\<open>createIndependentRepository\<close> ends the process
  (\<^verbatim>\<open>process.exit(1)\<close>).
\<close>

fun migrateAll :: "world \<Rightarrow> repo_state list \<Rightarrow> call list \<Rightarrow> (js_error + unit) \<times> call list" where
  "migrateAll w [] h = (Inr (), h)"
| "migrateAll w (r # rs) h =
     (case createIndependentRepository w (sourceName r) (name r) h of
        (Inl e, h1) \<Rightarrow> (Inl e, h1)
      | (Inr b, h1) \<Rightarrow>
          (let h2 = fixTeamNames w (name r) h1;
               h3 = enableGitHubActions w (name r) h2;
               h4 = (if rs \<noteq> [] then h3 @ [Sleep 5000] else h3)
           in migrateAll w rs h4))"

section \<open>Artifact generator\<close>

text \<open>\<^verbatim>\<open>blocks.join('\n')\<close>\<close>

fun join :: "string \<Rightarrow> string list \<Rightarrow> string" where
  "join sep [] = []"
| "join sep [x] = x"
| "join sep (x # y # ys) = x @ sep @ join sep (y # ys)"

text \<open>
  The array \<^verbatim>\<open>blocks\<close> of \<^verbatim>\<open>generateImportBlocks\<close>; the time stamp is the first
  argument.
\<close>

definition importBlock :: "repo_state \<Rightarrow> string list" where
  "importBlock r =
     (if action r = Fork
      then [''import {'',
            ''  to = github_repository.'' @ resourceName r,
            ''  id = '' @ [CHR 0x22] @ name r @ [CHR 0x22],
            ''}'',
            '''']
      else [])"

definition freshNote :: "repo_state list \<Rightarrow> string list" where
  "freshNote repos =
     (let freshRepos = filter (\<lambda>r. action r = CreateFresh) repos
      in if length freshRepos > 0
         then [''# The following repositories will be created fresh (not imported):'']
              @ map (\<lambda>r. ''#   - '' @ name r) freshRepos @ ['''']
         else [])"

definition importLines :: "string \<Rightarrow> repo_state list \<Rightarrow> string list" where
  "importLines ts repos =
     [''# Generated by fork-and-import.js'',
      ''# Generated at: '' @ ts,
      ''# Import blocks for forked GitHub repositories'',
      '''',
      ''# Only repository resources are imported. Other resources (labels, webhooks, etc.)'',
      ''# will be created fresh by Terraform, which is acceptable for settings.'',
      '''']
     @ concat (map importBlock repos)
     @ freshNote repos"

definition generateImportBlocks :: "string \<Rightarrow> repo_state list \<Rightarrow> string" where
  "generateImportBlocks ts repos = join [CHR 0x0A] (importLines ts repos)"

section \<open>The script\<close>

record args =
  dryRun :: bool
  stackDir :: "string option"
  onlyRepos :: "string list option"
  excludeRepos :: "string list"

text \<open>
  What the script finds at \<^verbatim>\<open>stackDir\<close>: no such directory, a directory without
  \<^verbatim>\<open>cdk.tf.json\<close>, a file that cannot be read or parsed, or a parsed document.
\<close>

datatype snapshot = NoStackDir | NoCdkTfJson | Unparseable | Document cdk_tf_json

record outcome =
  exitCode :: nat
  calls :: "call list"
  importTf :: "string option"

text \<open>
  \<^verbatim>\<open>main\<close>, with \<^verbatim>\<open>main().catch\<close>: an error that leaves \<^verbatim>\<open>main\<close> ends the process
  with code 1. The summary printed after \<^verbatim>\<open>import.tf\<close> is written has no effect
  other than console output.
\<close>

definition main :: "args \<Rightarrow> snapshot \<Rightarrow> world \<Rightarrow> outcome" where
  "main a snap w =
     (case snap of
        Document cdkTfJson \<Rightarrow>
          (case parseCdkTfJson cdkTfJson of
             Inl e \<Rightarrow> \<lparr>exitCode = 1, calls = [], importTf = None\<rparr>
           | Inr repos \<Rightarrow>
               (let filteredRepos = filterRepositories repos (onlyRepos a) (excludeRepos a) in
                if length filteredRepos = 0
                then \<lparr>exitCode = 0, calls = [], importTf = None\<rparr>
                else
                  (case probe w filteredRepos ([], False, []) of
                     (results, hasConflicts, h) \<Rightarrow>
                       if hasConflicts then \<lparr>exitCode = 1, calls = h, importTf = None\<rparr>
                       else
                         (case (if \<not> dryRun a
                                then migrateAll w (filter (\<lambda>r. action r = Fork) results) h
                                else (Inr (), h)) of
                            (Inl e, h1) \<Rightarrow> \<lparr>exitCode = 1, calls = h1, importTf = None\<rparr>
                          | (Inr u, h1) \<Rightarrow>
                              (let importBlocks = generateImportBlocks (now w) results in
                               if succeeds w h1 (WriteImportTf importBlocks)
                               then \<lparr>exitCode = 0, calls = h1 @ [WriteImportTf importBlocks],
                                     importTf = Some importBlocks\<rparr>
                               else \<lparr>exitCode = 1, calls = h1 @ [WriteImportTf importBlocks],
                                     importTf = None\<rparr>)))))
      | _ \<Rightarrow> \<lparr>exitCode = 1, calls = [], importTf = None\<rparr>)"

text \<open>The checks at the top of the file, which run before \<^verbatim>\<open>main\<close>.\<close>

definition script :: "args \<Rightarrow> snapshot \<Rightarrow> world \<Rightarrow> outcome" where
  "script a snap w =
     (if stackDir a = None then \<lparr>exitCode = 1, calls = [], importTf = None\<rparr>
      else if onlyRepos a \<noteq> None \<and> length (excludeRepos a) > 0
      then \<lparr>exitCode = 1, calls = [], importTf = None\<rparr>
      else if snap = NoStackDir then \<lparr>exitCode = 1, calls = [], importTf = None\<rparr>
      else if snap = NoCdkTfJson then \<lparr>exitCode = 1, calls = [], importTf = None\<rparr>
      else main a snap w)"

section \<open>Vocabulary for the statements\<close>

text \<open>The two queries the prober issues for each descriptor, in order.\<close>

definition probeCalls :: "repo list \<Rightarrow> call list" where
  "probeCalls rs = concat (map (\<lambda>r. [ApiGetSource (sourceName r), ApiGetTarget (name r)]) rs)"

text \<open>
  The commands that change a remote repository or transfer its content: creation,
  deletion, toggling of Actions permissions, clones and pushes.
\<close>

fun mutatingCall :: "call \<Rightarrow> bool" where
  "mutatingCall (RepoCreate n) = True"
| "mutatingCall (RepoDelete n) = True"
| "mutatingCall (PutActionsPermissions n b) = True"
| "mutatingCall (PutWorkflowPermissions n) = True"
| "mutatingCall (GitCloneBare n) = True"
| "mutatingCall GitPushMirror = True"
| "mutatingCall (GhRepoClone n) = True"
| "mutatingCall GitPush = True"
| "mutatingCall c = False"

text \<open>
  The commands that may occur while the repository with source name \<open>src\<close> and target
  name \<open>tgt\<close> goes through the pipeline, the compensating deletion apart: every command
  that names a repository names this one.
\<close>

fun pipelineCall :: "string \<Rightarrow> string \<Rightarrow> call \<Rightarrow> bool" where
  "pipelineCall src tgt (ApiGetSource n) = False"
| "pipelineCall src tgt (ApiGetTarget n) = (n = tgt)"
| "pipelineCall src tgt (RepoCreate n) = (n = tgt)"
| "pipelineCall src tgt (RepoDelete n) = False"
| "pipelineCall src tgt (PutActionsPermissions n b) = (n = tgt)"
| "pipelineCall src tgt (PutWorkflowPermissions n) = False"
| "pipelineCall src tgt (GitCloneBare n) = (n = src)"
| "pipelineCall src tgt (GitRemoteAdd n) = (n = tgt)"
| "pipelineCall src tgt (GhRepoClone n) = (n = tgt)"
| "pipelineCall src tgt (WriteImportTf s) = False"
| "pipelineCall src tgt c = True"

text \<open>The history \<open>h'\<close> extends \<open>h\<close> by commands that all satisfy \<open>P\<close>.\<close>

definition appends :: "(call \<Rightarrow> bool) \<Rightarrow> call list \<Rightarrow> call list \<Rightarrow> bool" where
  "appends P h h' = (\<exists>new. h' = h @ new \<and> list_all P new)"

text \<open>The commands of the migration loop over \<open>rs\<close>, compensating deletions included.\<close>

definition forkCall :: "repo_state list \<Rightarrow> call \<Rightarrow> bool" where
  "forkCall rs c =
     (\<exists>r\<in>set rs. pipelineCall (sourceName r) (name r) c \<or> c = RepoDelete (name r))"

text \<open>
  Two lines of \<^verbatim>\<open>import.tf\<close>: the \<^verbatim>\<open>id\<close> line of the import block of the
  repository \<open>n\<close>, and the line of the closing note that lists \<open>n\<close>.
\<close>

definition idLine :: "string \<Rightarrow> string" where
  "idLine n = ''  id = '' @ [CHR 0x22] @ n @ [CHR 0x22]"

definition noteLine :: "string \<Rightarrow> string" where
  "noteLine n = ''#   - '' @ n"

section \<open>Concrete runs\<close>

definition args_yes :: args where
  "args_yes = \<lparr>dryRun = False, stackDir = Some ''cdktf.out/stacks/repos'',
                onlyRepos = None, excludeRepos = []\<rparr>"

definition doc_aws :: cdk_tf_json where
  "doc_aws = \<lparr>resource = Some [(''github_repository'',
                 [(''cdktn-provider-aws_repo_45EAAAF4'', Some ''cdktn-provider-aws'')])]\<rparr>"

definition empty_tree :: tree where
  "empty_tree = \<lparr>content = (\<lambda>p. None), workflows = []\<rparr>"

text \<open>
  A target repository answers queries once it has been created. In \<open>world_ok\<close> every
  source repository exists and every other command succeeds; in
  \<open>world_disable_fails\<close> the command that disables Actions fails; in
  \<open>world_no_source\<close> no source repository exists; in \<open>world_conflict\<close> every
  command succeeds, so every target repository exists already.
\<close>

definition world_ok :: world where
  "world_ok =
     \<lparr>succeeds = (\<lambda>h c. case c of ApiGetTarget n \<Rightarrow> RepoCreate n \<in> set h | _ \<Rightarrow> True),
      checkout = (\<lambda>n. empty_tree),
      now = ''2025-12-10T00:00:00.000Z''\<rparr>"

definition world_disable_fails :: world where
  "world_disable_fails =
     \<lparr>succeeds = (\<lambda>h c. case c of ApiGetTarget n \<Rightarrow> RepoCreate n \<in> set h
                          | PutActionsPermissions n b \<Rightarrow> b | _ \<Rightarrow> True),
      checkout = (\<lambda>n. empty_tree),
      now = ''2025-12-10T00:00:00.000Z''\<rparr>"

definition world_conflict :: world where
  "world_conflict =
     \<lparr>succeeds = (\<lambda>h c. True),
      checkout = (\<lambda>n. empty_tree),
      now = ''2025-12-10T00:00:00.000Z''\<rparr>"

definition world_no_source :: world where
  "world_no_source =
     \<lparr>succeeds = (\<lambda>h c. case c of ApiGetTarget n \<Rightarrow> RepoCreate n \<in> set h
                          | ApiGetSource n \<Rightarrow> False | _ \<Rightarrow> True),
      checkout = (\<lambda>n. empty_tree),
      now = ''2025-12-10T00:00:00.000Z''\<rparr>"

text \<open>
  Descriptors, probe results and further worlds: in \<open>world_push_fails\<close> the mirror push
  fails, in \<open>world_mixed\<close> only the source repository of the AWS provider exists. The
  last two worlds fix what a clone of the target repository contains: a CODEOWNERS file
  that names the old team and no workflow file; or a CODEOWNERS file and one workflow
  file, neither with an old name in it (with nothing staged, \<^verbatim>\<open>git commit\<close> fails).
\<close>

definition repo_aws :: repo where
  "repo_aws = \<lparr>resourceName = ''cdktn-provider-aws_repo_45EAAAF4'', name = ''cdktn-provider-aws'',
               sourceName = ''cdktf-provider-aws''\<rparr>"

definition repo_google :: repo where
  "repo_google = \<lparr>resourceName = ''cdktn-provider-google_repo_11A4EE37'',
                  name = ''cdktn-provider-google'', sourceName = ''cdktf-provider-google''\<rparr>"

definition doc_two :: cdk_tf_json where
  "doc_two = \<lparr>resource = Some [(''github_repository'',
                 [(''cdktn-provider-aws_repo_45EAAAF4'', Some ''cdktn-provider-aws''),
                  (''cdktn-provider-google_repo_11A4EE37'', Some ''cdktn-provider-google'')])]\<rparr>"

definition state_aws :: repo_state where
  "state_aws = \<lparr>resourceName = ''cdktn-provider-aws_repo_45EAAAF4'', name = ''cdktn-provider-aws'',
                 sourceName = ''cdktf-provider-aws'', sourceExists = True, targetExists = False,
                 action = Fork\<rparr>"

definition state_google :: repo_state where
  "state_google = \<lparr>resourceName = ''cdktn-provider-google_repo_11A4EE37'',
                   name = ''cdktn-provider-google'', sourceName = ''cdktf-provider-google'',
                   sourceExists = False, targetExists = False, action = CreateFresh\<rparr>"

definition probes_aws :: "call list" where
  "probes_aws = [ApiGetSource ''cdktf-provider-aws'', ApiGetTarget ''cdktn-provider-aws'']"

definition world_push_fails :: world where
  "world_push_fails =
     \<lparr>succeeds = (\<lambda>h c. case c of ApiGetTarget n \<Rightarrow> RepoCreate n \<in> set h
                          | GitPushMirror \<Rightarrow> False | _ \<Rightarrow> True),
      checkout = (\<lambda>n. empty_tree),
      now = ''2025-12-10T00:00:00.000Z''\<rparr>"

definition world_mixed :: world where
  "world_mixed =
     \<lparr>succeeds = (\<lambda>h c. case c of ApiGetTarget n \<Rightarrow> RepoCreate n \<in> set h
                          | ApiGetSource n \<Rightarrow> n = ''cdktf-provider-aws'' | _ \<Rightarrow> True),
      checkout = (\<lambda>n. empty_tree),
      now = ''2025-12-10T00:00:00.000Z''\<rparr>"

definition tree_codeowners_only :: tree where
  "tree_codeowners_only =
     \<lparr>content = (\<lambda>p. if p = ''.github/CODEOWNERS'' then Some ''* @cdktf/tf-cdk-team'' else None),
      workflows = []\<rparr>"

definition world_codeowners_only :: world where
  "world_codeowners_only =
     \<lparr>succeeds = (\<lambda>h c. True), checkout = (\<lambda>n. tree_codeowners_only),
      now = ''2025-12-10T00:00:00.000Z''\<rparr>"

definition tree_up_to_date :: tree where
  "tree_up_to_date =
     \<lparr>content = (\<lambda>p. if p = ''.github/CODEOWNERS'' then Some ''* @cdktn-io/team-cdk-terrain''
                     else if p = ''.github/workflows/build.yml'' then Some ''name: build''
                     else None),
      workflows = [''.github/workflows/build.yml'']\<rparr>"

definition world_up_to_date :: world where
  "world_up_to_date =
     \<lparr>succeeds = (\<lambda>h c. c \<noteq> GitCommit), checkout = (\<lambda>n. tree_up_to_date),
      now = ''2025-12-10T00:00:00.000Z''\<rparr>"

section \<open>Histories only grow\<close>

text \<open>
  Every function of the pipeline extends the history it is given, and the commands it adds
  name no repository other than its own.
\<close>

lemma appends_refl: "appends P h h"
  by (simp add: appends_def)

lemma appends_trans: "appends P h h1 \<Longrightarrow> appends P h1 h2 \<Longrightarrow> appends P h h2"
  by (auto simp: appends_def)

lemma appends_snoc: "P c \<Longrightarrow> appends P h (h @ [c])"
  by (simp add: appends_def)

lemma appends_snoc2: "appends P h h1 \<Longrightarrow> P c \<Longrightarrow> appends P h (h1 @ [c])"
  by (auto simp: appends_def)

lemma appends_mono: "appends P h h' \<Longrightarrow> (\<And>c. P c \<Longrightarrow> Q c) \<Longrightarrow> appends Q h h'"
  by (auto simp: appends_def list_all_iff)

lemma execAll_appends:
  "list_all P cs \<Longrightarrow> appends P h (snd (execAll w cs h))"
proof (induction cs arbitrary: h)
  case Nil
  show ?case by (simp add: appends_refl)
next
  case (Cons c cs)
  then have pc: "P c" and pcs: "list_all P cs" by simp_all
  show ?case
  proof (cases "succeeds w h c")
    case True
    have a: "appends P h (h @ [c])" using pc by (rule appends_snoc)
    have "appends P (h @ [c]) (snd (execAll w cs (h @ [c])))" using Cons.IH[OF pcs] .
    then have "appends P h (snd (execAll w cs (h @ [c])))" using a appends_trans by blast
    then show ?thesis using True by simp
  next
    case False
    then show ?thesis using pc by (simp add: appends_snoc)
  qed
qed

lemma pollRepository_appends:
  "appends (pipelineCall src tgt) h (snd (pollRepository w tgt attempts h))"
proof (induction w tgt attempts h rule: pollRepository.induct)
  case (1 w tgt attempts h)
  show ?case
  proof (cases "attempts < maxAttempts")
    case False
    then show ?thesis by (simp add: appends_refl)
  next
    case True
    show ?thesis
    proof (cases "succeeds w h (ApiGetTarget tgt)")
      case s: True
      then show ?thesis using True by (simp add: appends_snoc)
    next
      case s: False
      have "appends (pipelineCall src tgt) h (h @ [ApiGetTarget tgt, Sleep 2000])"
        by (simp add: appends_def)
      then have "appends (pipelineCall src tgt) h
          (snd (pollRepository w tgt (attempts + 1) (h @ [ApiGetTarget tgt, Sleep 2000])))"
        using "1.IH"[OF True s] appends_trans by blast
      then show ?thesis using True s
        by (simp del: pollRepository.simps add: pollRepository.simps[of w tgt attempts h])
    qed
  qed
qed

lemma createEmptyRepository_appends:
  "appends (pipelineCall src tgt) h (snd (createEmptyRepository w tgt h))"
proof (cases "succeeds w h (RepoCreate tgt)")
  case True
  have "appends (pipelineCall src tgt) h (h @ [RepoCreate tgt])" by (simp add: appends_snoc)
  then have "appends (pipelineCall src tgt) h (snd (pollRepository w tgt 0 (h @ [RepoCreate tgt])))"
    using pollRepository_appends appends_trans by blast
  then show ?thesis using True by (simp add: createEmptyRepository_def)
next
  case False
  then show ?thesis by (simp add: createEmptyRepository_def appends_snoc)
qed

lemma disableGitHubActions_appends:
  "appends (pipelineCall src tgt) h (disableGitHubActions w tgt h)"
  by (simp add: disableGitHubActions_def exec_def appends_snoc)

lemma enableGitHubActions_appends:
  "appends (pipelineCall src tgt) h (enableGitHubActions w tgt h)"
  by (simp add: enableGitHubActions_def exec_def appends_snoc)

lemma migrateRepositoryHistory_appends:
  "appends (pipelineCall src tgt) h (snd (migrateRepositoryHistory w src tgt h))"
proof (cases "succeeds w h Mktemp")
  case False
  then show ?thesis by (simp add: migrateRepositoryHistory_def appends_snoc)
next
  case True
  let ?P = "pipelineCall src tgt"
  let ?b = "execAll w [Chdir TempDir, GitCloneBare src, Chdir RepoGit, GitRemoteAdd tgt, GitPushMirror] (h @ [Mktemp])"
  let ?c = "execAll w [Chdir OriginalDir, RmRf] (snd ?b)"
  have a0: "appends ?P h (h @ [Mktemp])" by (simp add: appends_snoc)
  have a1: "appends ?P (h @ [Mktemp]) (snd ?b)" by (rule execAll_appends) simp
  have a2: "appends ?P (snd ?b) (snd ?c)" by (rule execAll_appends) simp
  have eq: "snd (migrateRepositoryHistory w src tgt h) = snd ?c"
    using True by (simp add: migrateRepositoryHistory_def split: prod.splits sum.splits)
  show ?thesis unfolding eq using appends_trans[OF a0 appends_trans[OF a1 a2]] .
qed

lemma createIndependentRepository_appends:
  "createIndependentRepository w src tgt h = (res, h') \<Longrightarrow>
     (case res of
        Inr b \<Rightarrow> appends (pipelineCall src tgt) h h'
      | Inl e \<Rightarrow> \<exists>h1. h' = h1 @ [RepoDelete tgt] \<and> appends (pipelineCall src tgt) h h1)"
proof -
  assume run: "createIndependentRepository w src tgt h = (res, h')"
  let ?P = "pipelineCall src tgt"
  obtain r1 h1 where e1: "createEmptyRepository w tgt h = (r1, h1)" by (cases "createEmptyRepository w tgt h")
  have a1: "appends ?P h h1" using createEmptyRepository_appends[of src tgt h w] e1 by simp
  show ?thesis
  proof (cases r1)
    case (Inl e)
    then show ?thesis using e1 a1 run
      by (auto simp: createIndependentRepository_def cleanupPartial_def exec_def)
  next
    case (Inr b)
    let ?h2 = "disableGitHubActions w tgt h1"
    have a2: "appends ?P h ?h2" using appends_trans[OF a1 disableGitHubActions_appends] .
    obtain r3 h3 where e3: "migrateRepositoryHistory w src tgt ?h2 = (r3, h3)"
      by (cases "migrateRepositoryHistory w src tgt ?h2")
    have a3: "appends ?P h h3"
      using appends_trans[OF a2 migrateRepositoryHistory_appends[of src tgt ?h2 w]] e3 by simp
    show ?thesis using Inr e1 e3 a3 run
      by (cases r3) (auto simp: createIndependentRepository_def cleanupPartial_def exec_def)
  qed
qed

lemma fixCodeOwners_appends:
  "fixCodeOwners w (t, h, k) = (t', h', k') \<Longrightarrow> appends (pipelineCall src tgt) h h'"
  by (auto simp: fixCodeOwners_def Let_def appends_refl appends_snoc split: option.splits if_splits)

lemma fixWorkflowFiles_appends:
  "fixWorkflowFiles w files (t, h, k) = (t', h', k') \<Longrightarrow> appends (pipelineCall src tgt) h h'"
proof (induction files arbitrary: t h k)
  case Nil
  then show ?case by (simp add: appends_refl)
next
  case (Cons f files)
  show ?case
  proof (cases "content t f")
    case None
    then show ?thesis using Cons by simp
  next
    case (Some c)
    let ?new = "replaceAll (replaceAll c OLD_TEAM NEW_TEAM) OLD_EMAIL NEW_EMAIL"
    have step: "appends (pipelineCall src tgt) h (h @ [WriteFile f ?new])"
      by (simp add: appends_snoc)
    show ?thesis
    proof (cases "includes_str c OLD_TEAM \<or> includes_str c OLD_EMAIL")
      case False
      then show ?thesis using Cons Some by simp
    next
      case True
      show ?thesis
      proof (cases "succeeds w h (WriteFile f ?new)")
        case s: True
        have "fixWorkflowFiles w files
                (t\<lparr>content := (content t)(f \<mapsto> ?new)\<rparr>, h @ [WriteFile f ?new], k + 1) = (t', h', k')"
          using Cons.prems Some True s by (simp add: Let_def)
        then have "appends (pipelineCall src tgt) (h @ [WriteFile f ?new]) h'"
          by (rule Cons.IH)
        then show ?thesis using step appends_trans by blast
      next
        case s: False
        have "fixWorkflowFiles w files (t, h @ [WriteFile f ?new], k) = (t', h', k')"
          using Cons.prems Some True s by (simp add: Let_def)
        then have "appends (pipelineCall src tgt) (h @ [WriteFile f ?new]) h'"
          by (rule Cons.IH)
        then show ?thesis using step appends_trans by blast
      qed
    qed
  qed
qed

lemma fixTeamNamesBody_appends:
  "appends (pipelineCall src tgt) h (snd (snd (fixTeamNamesBody w tgt h)))"
proof -
  let ?P = "pipelineCall src tgt"
  obtain r1 h1 where e1: "execAll w [Chdir TempDir, GhRepoClone tgt] h = (r1, h1)"
    by (cases "execAll w [Chdir TempDir, GhRepoClone tgt] h")
  have "appends ?P h (snd (execAll w [Chdir TempDir, GhRepoClone tgt] h))"
    by (rule execAll_appends) simp
  then have a1: "appends ?P h h1" using e1 by simp
  show ?thesis
  proof (cases r1)
    case (Inl e)
    then show ?thesis using e1 a1 by (simp add: fixTeamNamesBody_def del: execAll.simps)
  next
    case (Inr u)
    obtain t1 h2 n1 where e2: "fixCodeOwners w (checkout w tgt, h1, 0) = (t1, h2, n1)"
      by (cases "fixCodeOwners w (checkout w tgt, h1, 0)") auto
    have a2: "appends ?P h h2" using appends_trans[OF a1 fixCodeOwners_appends[OF e2]] .
    have a3: "appends ?P h (h2 @ [FindWorkflows])" using a2 by (rule appends_snoc2) simp
    let ?wf = "filter (\<lambda>f. f \<noteq> []) (workflows t1)"
    show ?thesis
    proof (cases "?wf = []")
      case True
      then show ?thesis using Inr e1 e2 a3 by (simp add: fixTeamNamesBody_def del: execAll.simps)
    next
      case False
      obtain t2 h4 n2 where e4: "fixWorkflowFiles w ?wf (t1, h2 @ [FindWorkflows], n1) = (t2, h4, n2)"
        by (cases "fixWorkflowFiles w ?wf (t1, h2 @ [FindWorkflows], n1)") auto
      have a4: "appends ?P h h4" using appends_trans[OF a3 fixWorkflowFiles_appends[OF e4]] .
      obtain rg h5 where
        e5: "execAll w [GitConfigName, GitConfigEmail, GitAdd, GitCommit, GitPush] h4 = (rg, h5)"
        by (cases "execAll w [GitConfigName, GitConfigEmail, GitAdd, GitCommit, GitPush] h4")
      have "appends ?P h4 (snd (execAll w [GitConfigName, GitConfigEmail, GitAdd, GitCommit, GitPush] h4))"
        by (rule execAll_appends) simp
      then have a5: "appends ?P h h5" using a4 e5 appends_trans by fastforce
      show ?thesis
      proof (cases "n2 = 0")
        case True
        then show ?thesis using Inr e1 e2 e4 False a4
          by (simp add: fixTeamNamesBody_def del: execAll.simps)
      next
        case n: False
        then show ?thesis using Inr e1 e2 e4 e5 False a5
          by (simp add: fixTeamNamesBody_def del: execAll.simps)
      qed
    qed
  qed
qed

lemma fixTeamNames_appends:
  "appends (pipelineCall src tgt) h (fixTeamNames w tgt h)"
proof (cases "succeeds w h Mktemp")
  case False
  then show ?thesis by (simp add: fixTeamNames_def appends_snoc)
next
  case True
  let ?P = "pipelineCall src tgt"
  obtain res t h1 where e: "fixTeamNamesBody w tgt (h @ [Mktemp]) = (res, t, h1)"
    by (cases "fixTeamNamesBody w tgt (h @ [Mktemp])") auto
  have a0: "appends ?P h (h @ [Mktemp])" by (simp add: appends_snoc)
  have a1: "appends ?P (h @ [Mktemp]) h1"
    using fixTeamNamesBody_appends[of src tgt "h @ [Mktemp]" w] e by simp
  have a2: "appends ?P h1 (snd (execAll w [Chdir OriginalDir, RmRf] h1))"
    by (rule execAll_appends) simp
  have "appends ?P h (snd (execAll w [Chdir OriginalDir, RmRf] h1))"
    using appends_trans[OF a0 appends_trans[OF a1 a2]] .
  then show ?thesis using True e by (simp add: fixTeamNames_def del: execAll.simps)
qed

lemma migrateAll_appends:
  "appends (forkCall rs) h (snd (migrateAll w rs h))"
proof (induction rs arbitrary: h)
  case Nil
  show ?case by (simp add: appends_refl)
next
  case (Cons r rs)
  let ?P = "pipelineCall (sourceName r) (name r)"
  let ?Q = "forkCall (r # rs)"
  have PQ: "\<And>c. ?P c \<Longrightarrow> ?Q c" by (simp add: forkCall_def)
  have QQ: "\<And>c. forkCall rs c \<Longrightarrow> ?Q c" by (auto simp: forkCall_def)
  have del: "?Q (RepoDelete (name r))" by (simp add: forkCall_def)
  obtain r1 h1 where e1: "createIndependentRepository w (sourceName r) (name r) h = (r1, h1)"
    by (cases "createIndependentRepository w (sourceName r) (name r) h")
  note c1 = createIndependentRepository_appends[OF e1]
  show ?case
  proof (cases r1)
    case (Inl e)
    then obtain h0 where h0: "h1 = h0 @ [RepoDelete (name r)]" and a0: "appends ?P h h0"
      using c1 by auto
    have "appends ?Q h h0" using a0 PQ by (rule appends_mono)
    then have "appends ?Q h h1" unfolding h0 using del by (rule appends_snoc2)
    then show ?thesis using Inl e1 by simp
  next
    case (Inr b)
    have "appends ?P h h1" using c1 Inr by simp
    then have a1: "appends ?Q h h1" using PQ by (rule appends_mono)
    let ?h2 = "fixTeamNames w (name r) h1"
    let ?h3 = "enableGitHubActions w (name r) ?h2"
    let ?h4 = "if rs \<noteq> [] then ?h3 @ [Sleep 5000] else ?h3"
    have "appends ?P h1 ?h2" by (rule fixTeamNames_appends)
    moreover have "appends ?P ?h2 ?h3" by (rule enableGitHubActions_appends)
    moreover have "appends ?P ?h3 ?h4" by (simp add: appends_refl appends_snoc)
    ultimately have "appends ?P h1 ?h4" using appends_trans by blast
    then have "appends ?Q h1 ?h4" using PQ by (rule appends_mono)
    then have a4: "appends ?Q h ?h4" using a1 appends_trans by blast
    have "appends (forkCall rs) ?h4 (snd (migrateAll w rs ?h4))" by (rule Cons.IH)
    then have "appends ?Q ?h4 (snd (migrateAll w rs ?h4))" using QQ by (rule appends_mono)
    then have "appends ?Q h (snd (migrateAll w rs ?h4))" using a4 appends_trans by blast
    then show ?thesis using Inr e1 by (simp add: Let_def)
  qed
qed

section \<open>The probing loop and the shape of a run\<close>

lemma probe_acc:
  "\<exists>new. probe w rs (acc, c, h) =
           (acc @ new, c \<or> (\<exists>r\<in>set new. targetExists r), h @ probeCalls rs) \<and>
         map repo.truncate new = rs \<and>
         (\<forall>r\<in>set new. action r = (if sourceExists r then Fork else CreateFresh))"
proof (induction rs arbitrary: acc c h)
  case Nil
  show ?case by (simp add: probeCalls_def)
next
  case (Cons r rs)
  let ?se = "succeeds w h (ApiGetSource (sourceName r))"
  let ?h1 = "h @ [ApiGetSource (sourceName r)]"
  let ?te = "succeeds w ?h1 (ApiGetTarget (name r))"
  let ?h2 = "?h1 @ [ApiGetTarget (name r)]"
  let ?x = "\<lparr>resourceName = resourceName r, name = name r, sourceName = sourceName r,
             sourceExists = ?se, targetExists = ?te,
             action = (if ?se then Fork else CreateFresh)\<rparr>"
  have step: "probe w (r # rs) (acc, c, h) = probe w rs (acc @ [?x], (if ?te then True else c), ?h2)"
    by (simp add: checkSourceRepo_def checkTargetRepo_def exec_def)
  obtain new where
    n1: "probe w rs (acc @ [?x], (if ?te then True else c), ?h2) =
           ((acc @ [?x]) @ new, (if ?te then True else c) \<or> (\<exists>r\<in>set new. targetExists r),
            ?h2 @ probeCalls rs)"
    and n2: "map repo.truncate new = rs"
    and n3: "\<forall>r\<in>set new. action r = (if sourceExists r then Fork else CreateFresh)"
    using Cons.IH[of "acc @ [?x]" "if ?te then True else c" ?h2] by blast
  have tr: "repo.truncate ?x = r" by (simp add: repo.truncate_def)
  have g1: "probe w (r # rs) (acc, c, h) =
          (acc @ (?x # new), c \<or> (\<exists>r\<in>set (?x # new). targetExists r), h @ probeCalls (r # rs))"
    using step n1 by (auto simp: probeCalls_def)
  have g2: "map repo.truncate (?x # new) = r # rs" using n2 tr by simp
  have g3: "\<forall>r\<in>set (?x # new). action r = (if sourceExists r then Fork else CreateFresh)"
    using n3 by simp
  show ?case using g1 g2 g3 by (intro exI[of _ "?x # new"] conjI)
qed

lemma probe_initial:
  assumes "probe w rs ([], False, []) = (results, hasConflicts, h)"
  shows "map repo.truncate results = rs" and "h = probeCalls rs"
    and "hasConflicts = (\<exists>r\<in>set results. targetExists r)"
    and "\<forall>r\<in>set results. action r = (if sourceExists r then Fork else CreateFresh)"
  using probe_acc[of w rs "[]" False "[]"] assms by auto

lemma script_after_probe:
  assumes "stackDir a \<noteq> None" and "onlyRepos a = None \<or> excludeRepos a = []"
    and "parseCdkTfJson cdkTfJson = Inr repos"
    and "probe w (filterRepositories repos (onlyRepos a) (excludeRepos a)) ([], False, []) =
           (results, hasConflicts, h)"
    and "results \<noteq> []"
  shows "script a (Document cdkTfJson) w =
     (if hasConflicts then \<lparr>exitCode = 1, calls = h, importTf = None\<rparr>
      else
        (case (if \<not> dryRun a
               then migrateAll w (filter (\<lambda>r. action r = Fork) results) h
               else (Inr (), h)) of
           (Inl e, h1) \<Rightarrow> \<lparr>exitCode = 1, calls = h1, importTf = None\<rparr>
         | (Inr u, h1) \<Rightarrow>
             (let importBlocks = generateImportBlocks (now w) results in
              if succeeds w h1 (WriteImportTf importBlocks)
              then \<lparr>exitCode = 0, calls = h1 @ [WriteImportTf importBlocks],
                    importTf = Some importBlocks\<rparr>
              else \<lparr>exitCode = 1, calls = h1 @ [WriteImportTf importBlocks],
                    importTf = None\<rparr>)))"
proof -
  let ?fr = "filterRepositories repos (onlyRepos a) (excludeRepos a)"
  have "map repo.truncate results = ?fr" using probe_initial(1)[OF assms(4)] .
  then have ne: "?fr \<noteq> []" using assms(5) by auto
  have "script a (Document cdkTfJson) w = main a (Document cdkTfJson) w"
    using assms(1,2) by (auto simp: script_def)
  then show ?thesis using assms(3,4) ne by (simp add: main_def Let_def)
qed

lemma probeCalls_not_mutating: "list_all (\<lambda>c. \<not> mutatingCall c) (probeCalls rs)"
  by (induction rs) (simp_all add: probeCalls_def)

lemma script_calls_after_probe:
  assumes "stackDir a \<noteq> None" and "onlyRepos a = None \<or> excludeRepos a = []"
    and "parseCdkTfJson cdkTfJson = Inr repos"
    and "probe w (filterRepositories repos (onlyRepos a) (excludeRepos a)) ([], False, []) =
           (results, hasConflicts, h)"
  shows "appends (\<lambda>c. forkCall (filter (\<lambda>x. action x = Fork) results) c \<or> (\<exists>s. c = WriteImportTf s))
           (probeCalls (filterRepositories repos (onlyRepos a) (excludeRepos a)))
           (calls (script a (Document cdkTfJson) w))"
proof -
  let ?fr = "filterRepositories repos (onlyRepos a) (excludeRepos a)"
  let ?fk = "filter (\<lambda>x. action x = Fork) results"
  let ?P = "\<lambda>c. forkCall ?fk c \<or> (\<exists>s. c = WriteImportTf s)"
  have h: "h = probeCalls ?fr" using probe_initial(2)[OF assms(4)] .
  have tr: "map repo.truncate results = ?fr" using probe_initial(1)[OF assms(4)] .
  show ?thesis
  proof (cases "results = []")
    case True
    then have "?fr = []" using tr by simp
    then have "script a (Document cdkTfJson) w = \<lparr>exitCode = 0, calls = [], importTf = None\<rparr>"
      using assms(1-3) by (auto simp: script_def main_def)
    then show ?thesis using \<open>?fr = []\<close> by (simp add: probeCalls_def appends_refl)
  next
    case False
    note sc = script_after_probe[OF assms(1-4) False]
    obtain res h1 where m: "migrateAll w ?fk h = (res, h1)" by (cases "migrateAll w ?fk h")
    have "appends (forkCall ?fk) h (snd (migrateAll w ?fk h))" by (rule migrateAll_appends)
    then have "appends (forkCall ?fk) h h1" using m by simp
    then have a1: "appends ?P h h1" by (rule appends_mono) simp
    have a2: "\<And>s. appends ?P h (h1 @ [WriteImportTf s])" using a1 by (rule appends_snoc2) blast
    have a3: "\<And>s. appends ?P h (h @ [WriteImportTf s])" by (rule appends_snoc) blast
    show ?thesis
    proof (cases hasConflicts)
      case True
      then show ?thesis using sc h by (simp add: appends_refl)
    next
      case nc: False
      show ?thesis
      proof (cases "dryRun a")
        case True
        then show ?thesis using sc nc a3 h by (simp add: Let_def)
      next
        case False
        then show ?thesis using sc nc m a1 a2 h by (cases res) (simp_all add: Let_def)
      qed
    qed
  qed
qed

lemma script_calls_general:
  "list_all (\<lambda>c. (\<exists>n. c = ApiGetSource n) \<or> (\<exists>n. c = ApiGetTarget n) \<or> (\<exists>s. c = WriteImportTf s) \<or>
                 (\<exists>src tgt. pipelineCall src tgt c) \<or> (\<exists>n. c = RepoDelete n))
     (calls (script a snap w))"
proof -
  let ?Q = "\<lambda>c. (\<exists>n. c = ApiGetSource n) \<or> (\<exists>n. c = ApiGetTarget n) \<or> (\<exists>s. c = WriteImportTf s) \<or>
                 (\<exists>src tgt. pipelineCall src tgt c) \<or> (\<exists>n. c = RepoDelete n)"
  consider (early) "calls (script a snap w) = []"
    | (run) cdkTfJson repos where "stackDir a \<noteq> None" "onlyRepos a = None \<or> excludeRepos a = []"
        "snap = Document cdkTfJson" "parseCdkTfJson cdkTfJson = Inr repos"
  proof (cases "stackDir a \<noteq> None \<and> (onlyRepos a = None \<or> excludeRepos a = [])")
    case False
    then have "calls (script a snap w) = []" by (auto simp: script_def)
    then show ?thesis using early by blast
  next
    case ok: True
    show ?thesis
    proof (cases snap)
      case (Document j)
      show ?thesis
      proof (cases "parseCdkTfJson j")
        case (Inl e)
        then have "calls (script a snap w) = []" using Document ok by (auto simp: script_def main_def)
        then show ?thesis using early by blast
      next
        case (Inr repos)
        then show ?thesis using run[of j repos] ok Document by blast
      qed
    qed (use early in \<open>auto simp: script_def main_def\<close>)
  qed
  then show ?thesis
  proof cases
    case early
    then show ?thesis by simp
  next
    case (run j repos)
    let ?fr = "filterRepositories repos (onlyRepos a) (excludeRepos a)"
    obtain results hc h where p: "probe w ?fr ([], False, []) = (results, hc, h)"
      by (cases "probe w ?fr ([], False, [])") auto
    let ?fk = "filter (\<lambda>x. action x = Fork) results"
    obtain new where cs: "calls (script a (Document j) w) = probeCalls ?fr @ new"
      and new: "list_all (\<lambda>c. forkCall ?fk c \<or> (\<exists>s. c = WriteImportTf s)) new"
      using script_calls_after_probe[OF run(1,2,4) p] by (auto simp: appends_def)
    have "list_all ?Q (probeCalls ?fr)" by (auto simp: probeCalls_def list_all_iff)
    moreover have "\<And>c. forkCall ?fk c \<or> (\<exists>s. c = WriteImportTf s) \<Longrightarrow> ?Q c"
      unfolding forkCall_def by blast
    then have "list_all ?Q new" using new unfolding list_all_iff by blast
    ultimately show ?thesis using cs run(3) by simp
  qed
qed

section \<open>Steps of the pipeline\<close>

lemma createIndependentRepository_step1_fails:
  "createEmptyRepository w tgt h = (Inl e, h1) \<Longrightarrow>
   createIndependentRepository w src tgt h = (Inl e, h1 @ [RepoDelete tgt])"
  by (simp add: createIndependentRepository_def cleanupPartial_def exec_def)

lemma createIndependentRepository_step3_fails:
  "createEmptyRepository w tgt h = (Inr b, h2) \<Longrightarrow>
   migrateRepositoryHistory w src tgt (disableGitHubActions w tgt h2) = (Inl e, h1) \<Longrightarrow>
   createIndependentRepository w src tgt h = (Inl e, h1 @ [RepoDelete tgt])"
  by (simp add: createIndependentRepository_def cleanupPartial_def exec_def)

lemma createIndependentRepository_succeeds:
  "createEmptyRepository w tgt h = (Inr b, h2) \<Longrightarrow>
   migrateRepositoryHistory w src tgt (disableGitHubActions w tgt h2) = (Inr u, h3) \<Longrightarrow>
   createIndependentRepository w src tgt h = (Inr True, h3)"
  by (simp add: createIndependentRepository_def)

lemma migrateAll_continues:
  assumes "createIndependentRepository w (sourceName r) (name r) h = (Inr b, h1)"
  shows "\<exists>h4. migrateAll w (r # rs) h = migrateAll w rs h4 \<and>
              appends (pipelineCall (sourceName r) (name r)) h h4"
proof -
  let ?P = "pipelineCall (sourceName r) (name r)"
  let ?h2 = "fixTeamNames w (name r) h1"
  let ?h3 = "enableGitHubActions w (name r) ?h2"
  let ?h4 = "if rs \<noteq> [] then ?h3 @ [Sleep 5000] else ?h3"
  have "appends ?P h h1" using createIndependentRepository_appends[OF assms] by simp
  moreover have "appends ?P h1 ?h2" by (rule fixTeamNames_appends)
  moreover have "appends ?P ?h2 ?h3" by (rule enableGitHubActions_appends)
  moreover have "appends ?P ?h3 ?h4" by (simp add: appends_refl appends_snoc)
  ultimately have "appends ?P h ?h4" using appends_trans by blast
  moreover have "migrateAll w (r # rs) h = migrateAll w rs ?h4" using assms by (simp add: Let_def)
  ultimately show ?thesis by blast
qed

lemma note_lists_fresh:
  "d \<in> set results \<Longrightarrow> action d = CreateFresh \<Longrightarrow> (''#   - '' @ name d) \<in> set (freshNote results)"
proof -
  assume d: "d \<in> set results" "action d = CreateFresh"
  then have "d \<in> set (filter (\<lambda>r. action r = CreateFresh) results)" by simp
  then have ne: "filter (\<lambda>r. action r = CreateFresh) results \<noteq> []"
    by (metis empty_iff empty_set)
  have "(''#   - '' @ name d) \<in> (\<lambda>r. ''#   - '' @ name r) ` set (filter (\<lambda>r. action r = CreateFresh) results)"
    using d by (intro imageI) simp
  then show ?thesis using ne by (simp add: freshNote_def Let_def del: set_filter)
qed

section \<open>The document the script writes\<close>

lemma idLine_importBlock:
  "idLine n \<in> set (importBlock r) \<Longrightarrow> action r = Fork \<and> name r = n"
  by (auto simp: importBlock_def idLine_def split: if_splits)

lemma idLine_not_freshNote: "idLine n \<notin> set (freshNote rs)"
  by (auto simp: freshNote_def idLine_def Let_def)

lemma idLine_importLines:
  "idLine n \<in> set (importLines ts rs) \<Longrightarrow> \<exists>r\<in>set rs. action r = Fork \<and> name r = n"
proof -
  assume a: "idLine n \<in> set (importLines ts rs)"
  have "idLine n \<in> set (concat (map importBlock rs))"
    using a idLine_not_freshNote[of n rs] by (auto simp: importLines_def idLine_def)
  then obtain r where "r \<in> set rs" "idLine n \<in> set (importBlock r)" by auto
  then show ?thesis using idLine_importBlock by blast
qed

lemma noteLine_freshNote:
  "d \<in> set rs \<Longrightarrow> action d = CreateFresh \<Longrightarrow> noteLine (name d) \<in> set (freshNote rs)"
  using note_lists_fresh by (simp add: noteLine_def)

lemma importBlocks_fork_only:
  "concat (map importBlock rs) = concat (map importBlock (filter (\<lambda>x. action x = Fork) rs))"
  by (induction rs) (simp_all add: importBlock_def)

lemma importLines_shape:
  "importLines ts rs =
     take 7 (importLines ts rs) @
     concat (map importBlock (filter (\<lambda>x. action x = Fork) rs)) @ freshNote rs"
  using importBlocks_fork_only[of rs] by (simp add: importLines_def)

lemma importTf_after_probe:
  assumes "stackDir a \<noteq> None" and "onlyRepos a = None \<or> excludeRepos a = []"
    and "parseCdkTfJson cdkTfJson = Inr repos"
    and "probe w (filterRepositories repos (onlyRepos a) (excludeRepos a)) ([], False, []) =
           (results, hasConflicts, h)"
    and "importTf (script a (Document cdkTfJson) w) = Some doc"
  shows "doc = generateImportBlocks (now w) results"
proof -
  let ?fr = "filterRepositories repos (onlyRepos a) (excludeRepos a)"
  have tr: "map repo.truncate results = ?fr" using probe_initial(1)[OF assms(4)] .
  show ?thesis
  proof (cases "results = []")
    case True
    then have "?fr = []" using tr by simp
    then have "script a (Document cdkTfJson) w = \<lparr>exitCode = 0, calls = [], importTf = None\<rparr>"
      using assms(1-3) by (auto simp: script_def main_def)
    then show ?thesis using assms(5) by simp
  next
    case False
    note sc = script_after_probe[OF assms(1-4) False]
    obtain res h1 where m:
      "(if \<not> dryRun a then migrateAll w (filter (\<lambda>r. action r = Fork) results) h else (Inr (), h)) = (res, h1)"
      by (cases "if \<not> dryRun a then migrateAll w (filter (\<lambda>r. action r = Fork) results) h else (Inr (), h)")
    show ?thesis
      using sc assms(5) m
      by (cases hasConflicts; cases res) (auto simp: Let_def split: if_splits)
  qed
qed

lemma create_fresh_no_commands:
  assumes "stackDir a \<noteq> None" and "onlyRepos a = None \<or> excludeRepos a = []"
    and "parseCdkTfJson cdkTfJson = Inr repos"
    and "probe w (filterRepositories repos (onlyRepos a) (excludeRepos a)) ([], False, []) =
           (results, hasConflicts, h)"
    and "d \<in> set results" and "action d = CreateFresh"
    and "\<forall>x\<in>set results. action x = Fork \<longrightarrow> name x \<noteq> name d"
  shows "RepoCreate (name d) \<notin> set (calls (script a (Document cdkTfJson) w))
       \<and> PutActionsPermissions (name d) False \<notin> set (calls (script a (Document cdkTfJson) w))
       \<and> PutActionsPermissions (name d) True \<notin> set (calls (script a (Document cdkTfJson) w))
       \<and> GitRemoteAdd (name d) \<notin> set (calls (script a (Document cdkTfJson) w))
       \<and> GhRepoClone (name d) \<notin> set (calls (script a (Document cdkTfJson) w))
       \<and> RepoDelete (name d) \<notin> set (calls (script a (Document cdkTfJson) w))"
proof -
  let ?fr = "filterRepositories repos (onlyRepos a) (excludeRepos a)"
  let ?fk = "filter (\<lambda>x. action x = Fork) results"
  let ?cs = "calls (script a (Document cdkTfJson) w)"
  obtain new where cs: "?cs = probeCalls ?fr @ new"
    and new: "list_all (\<lambda>c. forkCall ?fk c \<or> (\<exists>s. c = WriteImportTf s)) new"
    using script_calls_after_probe[OF assms(1-4)] by (auto simp: appends_def)
  have pr: "\<And>c. c \<in> set (probeCalls ?fr) \<Longrightarrow> (\<exists>n. c = ApiGetSource n) \<or> (\<exists>n. c = ApiGetTarget n)"
    by (auto simp: probeCalls_def)
  have nf: "\<And>c. forkCall ?fk c \<Longrightarrow>
      c \<noteq> RepoCreate (name d) \<and> c \<noteq> PutActionsPermissions (name d) False \<and>
      c \<noteq> PutActionsPermissions (name d) True \<and> c \<noteq> GitRemoteAdd (name d) \<and>
      c \<noteq> GhRepoClone (name d) \<and> c \<noteq> RepoDelete (name d)"
    using assms(7) by (auto simp: forkCall_def)
  have all: "\<And>c. c \<in> set ?cs \<Longrightarrow>
      c \<noteq> RepoCreate (name d) \<and> c \<noteq> PutActionsPermissions (name d) False \<and>
      c \<noteq> PutActionsPermissions (name d) True \<and> c \<noteq> GitRemoteAdd (name d) \<and>
      c \<noteq> GhRepoClone (name d) \<and> c \<noteq> RepoDelete (name d)"
  proof -
    fix c assume "c \<in> set ?cs"
    then consider "c \<in> set (probeCalls ?fr)" | "c \<in> set new" unfolding cs by auto
    then show "c \<noteq> RepoCreate (name d) \<and> c \<noteq> PutActionsPermissions (name d) False \<and>
      c \<noteq> PutActionsPermissions (name d) True \<and> c \<noteq> GitRemoteAdd (name d) \<and>
      c \<noteq> GhRepoClone (name d) \<and> c \<noteq> RepoDelete (name d)"
    proof cases
      case 1
      then show ?thesis using pr by blast
    next
      case 2
      then have "forkCall ?fk c \<or> (\<exists>s. c = WriteImportTf s)"
        using new by (simp add: list_all_iff)
      then show ?thesis using nf by blast
    qed
  qed
  show ?thesis using all by blast
qed

section \<open>Facts about the concrete runs\<close>

lemma parse_doc_aws: "parseCdkTfJson doc_aws = Inr [repo_aws]"
  by (simp add: parseCdkTfJson_def githubRepos_def doc_aws_def repo_aws_def getSourceRepoName_def)

lemma filter_args_yes: "filterRepositories rs (onlyRepos args_yes) (excludeRepos args_yes) = rs"
  by (simp add: filterRepositories_def args_yes_def)

lemma probe_aws_ok:
  "succeeds w [] (ApiGetSource ''cdktf-provider-aws'') \<Longrightarrow>
   \<not> succeeds w [ApiGetSource ''cdktf-provider-aws''] (ApiGetTarget ''cdktn-provider-aws'') \<Longrightarrow>
   probe w (filterRepositories [repo_aws] (onlyRepos args_yes) (excludeRepos args_yes))
     ([], False, []) = ([state_aws], False, probes_aws)"
  by (simp add: filter_args_yes repo_aws_def state_aws_def probes_aws_def checkSourceRepo_def
      checkTargetRepo_def exec_def)

lemma parse_doc_two: "parseCdkTfJson doc_two = Inr [repo_aws, repo_google]"
  by (simp add: parseCdkTfJson_def githubRepos_def doc_two_def repo_aws_def repo_google_def
      getSourceRepoName_def)

section \<open>The claims\<close>

text \<open>
  C1. If the prober finds an existing target repository for some filtered descriptor, the
  run ends with exit code 1 right after probing: the commands issued are exactly the two
  queries per filtered descriptor, none of them creates, deletes, toggles, clones or
  pushes anything, and \<^verbatim>\<open>import.tf\<close> is not written. The flag \<^verbatim>\<open>--yes\<close>
  (\<open>dryRun a\<close>) plays no role.
\<close>

theorem conflict_aborts_before_any_mutation:
  assumes "stackDir a \<noteq> None" and "onlyRepos a = None \<or> excludeRepos a = []"
    and "parseCdkTfJson cdkTfJson = Inr repos"
    and "probe w (filterRepositories repos (onlyRepos a) (excludeRepos a)) ([], False, []) =
           (results, hasConflicts, h)"
    and "\<exists>r\<in>set results. targetExists r"
  shows "script a (Document cdkTfJson) w =
           \<lparr>exitCode = 1,
            calls = probeCalls (filterRepositories repos (onlyRepos a) (excludeRepos a)),
            importTf = None\<rparr>
         \<and> list_all (\<lambda>c. \<not> mutatingCall c) (calls (script a (Document cdkTfJson) w))"
proof -
  have ne: "results \<noteq> []" using assms(5) by auto
  have hc: "hasConflicts" using probe_initial(3)[OF assms(4)] assms(5) by simp
  have h: "h = probeCalls (filterRepositories repos (onlyRepos a) (excludeRepos a))"
    using probe_initial(2)[OF assms(4)] .
  have "script a (Document cdkTfJson) w = \<lparr>exitCode = 1, calls = h, importTf = None\<rparr>"
    using script_after_probe[OF assms(1-4) ne] hc by simp
  then show ?thesis using h probeCalls_not_mutating by simp
qed

theorem conflict_aborts_witness:
  "script args_yes (Document doc_aws) world_conflict =
     \<lparr>exitCode = 1,
      calls = [ApiGetSource ''cdktf-provider-aws'', ApiGetTarget ''cdktn-provider-aws''],
      importTf = None\<rparr>"
proof -
  let ?a = "args_yes"
  let ?res = "[\<lparr>resourceName = ''cdktn-provider-aws_repo_45EAAAF4'', name = ''cdktn-provider-aws'',
               sourceName = ''cdktf-provider-aws'', sourceExists = True, targetExists = True,
               action = Fork\<rparr>]"
  have f: "filterRepositories [repo_aws] (onlyRepos ?a) (excludeRepos ?a) = [repo_aws]"
    by (simp add: filterRepositories_def args_yes_def)
  have 1: "stackDir ?a \<noteq> None" by (simp add: args_yes_def)
  have 2: "onlyRepos ?a = None \<or> excludeRepos ?a = []" by (simp add: args_yes_def)
  have 4: "probe world_conflict (filterRepositories [repo_aws] (onlyRepos ?a) (excludeRepos ?a))
             ([], False, []) =
           (?res, True, [ApiGetSource ''cdktf-provider-aws'', ApiGetTarget ''cdktn-provider-aws''])"
    unfolding f
    by (simp add: repo_aws_def world_conflict_def checkSourceRepo_def checkTargetRepo_def exec_def)
  have 5: "\<exists>r\<in>set ?res. targetExists r" by simp
  show ?thesis
    using conflict_aborts_before_any_mutation[OF 1 2 parse_doc_aws 4 5] f
    by (simp add: probeCalls_def repo_aws_def)
qed

text \<open>
  C2, as the code has it. Let the migration loop reach the repository \<open>r\<close> with history
  \<open>h\<close> and the repositories \<open>rs\<close> still to do. If step 1 (creation and polling) or
  step 3 (history transfer) fails, the deletion of the target repository is attempted and
  the run ends there with exit code 1: nothing is issued for \<open>rs\<close> and \<^verbatim>\<open>import.tf\<close>
  is not written. If steps 1 and 3 succeed, then whatever the outcome of steps 2, 4, 5
  and 6, no deletion is issued for \<open>r\<close> and the loop goes on with \<open>rs\<close>.
\<close>

theorem structural_failure_deletes_and_aborts:
  assumes "stackDir a \<noteq> None" and "onlyRepos a = None \<or> excludeRepos a = []"
    and "\<not> dryRun a"
    and "parseCdkTfJson cdkTfJson = Inr repos"
    and "probe w (filterRepositories repos (onlyRepos a) (excludeRepos a)) ([], False, []) =
           (results, False, h0)"
    and "migrateAll w (filter (\<lambda>x. action x = Fork) results) h0 = migrateAll w (r # rs) h"
  shows "(createEmptyRepository w (name r) h = (Inl e, h1) \<or>
          (\<exists>b h2. createEmptyRepository w (name r) h = (Inr b, h2) \<and>
                  migrateRepositoryHistory w (sourceName r) (name r)
                    (disableGitHubActions w (name r) h2) = (Inl e, h1))
          \<longrightarrow> script a (Document cdkTfJson) w =
                \<lparr>exitCode = 1, calls = h1 @ [RepoDelete (name r)], importTf = None\<rparr>)
       \<and> (\<forall>b h2 u h3.
             createEmptyRepository w (name r) h = (Inr b, h2) \<and>
             migrateRepositoryHistory w (sourceName r) (name r)
               (disableGitHubActions w (name r) h2) = (Inr u, h3)
             \<longrightarrow> (\<exists>h4. migrateAll w (r # rs) h = migrateAll w rs h4 \<and>
                       appends (pipelineCall (sourceName r) (name r)) h h4))"
proof (intro conjI impI allI)
  assume fail: "createEmptyRepository w (name r) h = (Inl e, h1) \<or>
          (\<exists>b h2. createEmptyRepository w (name r) h = (Inr b, h2) \<and>
                  migrateRepositoryHistory w (sourceName r) (name r)
                    (disableGitHubActions w (name r) h2) = (Inl e, h1))"
  then have "createIndependentRepository w (sourceName r) (name r) h =
               (Inl e, h1 @ [RepoDelete (name r)])"
    using createIndependentRepository_step1_fails createIndependentRepository_step3_fails
    by blast
  then have m: "migrateAll w (filter (\<lambda>x. action x = Fork) results) h0 =
                  (Inl e, h1 @ [RepoDelete (name r)])"
    using assms(6) by simp
  then have "filter (\<lambda>x. action x = Fork) results \<noteq> []" by auto
  then have ne: "results \<noteq> []" by auto
  show "script a (Document cdkTfJson) w =
          \<lparr>exitCode = 1, calls = h1 @ [RepoDelete (name r)], importTf = None\<rparr>"
    using script_after_probe[OF assms(1,2,4,5) ne] assms(3) m by simp
next
  fix b h2 u h3
  assume "createEmptyRepository w (name r) h = (Inr b, h2) \<and>
          migrateRepositoryHistory w (sourceName r) (name r)
            (disableGitHubActions w (name r) h2) = (Inr u, h3)"
  then have "createIndependentRepository w (sourceName r) (name r) h = (Inr True, h3)"
    using createIndependentRepository_succeeds by blast
  then show "\<exists>h4. migrateAll w (r # rs) h = migrateAll w rs h4 \<and>
                  appends (pipelineCall (sourceName r) (name r)) h h4"
    by (rule migrateAll_continues)
qed

theorem structural_failure_witness:
  "script args_yes (Document doc_aws) world_push_fails =
     \<lparr>exitCode = 1,
      calls = [ApiGetSource ''cdktf-provider-aws'', ApiGetTarget ''cdktn-provider-aws'',
               RepoCreate ''cdktn-provider-aws'', ApiGetTarget ''cdktn-provider-aws'',
               PutActionsPermissions ''cdktn-provider-aws'' False, Mktemp, Chdir TempDir,
               GitCloneBare ''cdktf-provider-aws'', Chdir RepoGit,
               GitRemoteAdd ''cdktn-provider-aws'', GitPushMirror, Chdir OriginalDir, RmRf,
               RepoDelete ''cdktn-provider-aws''],
      importTf = None\<rparr>"
proof -
  let ?w = world_push_fails
  let ?h2 = "probes_aws @ [RepoCreate ''cdktn-provider-aws'', ApiGetTarget ''cdktn-provider-aws'']"
  let ?h1 = "?h2 @ [PutActionsPermissions ''cdktn-provider-aws'' False, Mktemp, Chdir TempDir,
               GitCloneBare ''cdktf-provider-aws'', Chdir RepoGit,
               GitRemoteAdd ''cdktn-provider-aws'', GitPushMirror, Chdir OriginalDir, RmRf]"
  have 1: "stackDir args_yes \<noteq> None" by (simp add: args_yes_def)
  have 2: "onlyRepos args_yes = None \<or> excludeRepos args_yes = []" by (simp add: args_yes_def)
  have 3: "\<not> dryRun args_yes" by (simp add: args_yes_def)
  have 5: "probe ?w (filterRepositories [repo_aws] (onlyRepos args_yes) (excludeRepos args_yes))
     ([], False, []) = ([state_aws], False, probes_aws)"
    by (rule probe_aws_ok) (simp_all add: world_push_fails_def)
  have 6: "migrateAll ?w (filter (\<lambda>x. action x = Fork) [state_aws]) probes_aws =
           migrateAll ?w (state_aws # []) probes_aws"
    by (simp add: state_aws_def)
  have c: "createEmptyRepository ?w (name state_aws) probes_aws = (Inr True, ?h2)"
    by (simp add: createEmptyRepository_def world_push_fails_def state_aws_def probes_aws_def
        maxAttempts_def)
  have m: "migrateRepositoryHistory ?w (sourceName state_aws) (name state_aws)
             (disableGitHubActions ?w (name state_aws) ?h2) = (Inl (CommandFailed GitPushMirror), ?h1)"
    by (simp add: migrateRepositoryHistory_def disableGitHubActions_def exec_def
        world_push_fails_def state_aws_def probes_aws_def)
  have f: "createEmptyRepository ?w (name state_aws) probes_aws = (Inl (CommandFailed GitPushMirror), ?h1) \<or>
          (\<exists>b h2. createEmptyRepository ?w (name state_aws) probes_aws = (Inr b, h2) \<and>
                  migrateRepositoryHistory ?w (sourceName state_aws) (name state_aws)
                    (disableGitHubActions ?w (name state_aws) h2) = (Inl (CommandFailed GitPushMirror), ?h1))"
    using c m by blast
  show ?thesis
    using structural_failure_deletes_and_aborts[OF 1 2 3 parse_doc_aws 5 6, THEN conjunct1, rule_format, OF f]
    by (simp add: probes_aws_def state_aws_def)
qed

text \<open>
  The claim as stated fails when step 2 fails: the command that disables Actions fails,
  no deletion follows, the pipeline runs to its end and the run exits with code 0.
\<close>

theorem step_failure_counterexample:
  "\<not> succeeds world_disable_fails
       [ApiGetSource ''cdktf-provider-aws'', ApiGetTarget ''cdktn-provider-aws'',
        RepoCreate ''cdktn-provider-aws'', ApiGetTarget ''cdktn-provider-aws'']
       (PutActionsPermissions ''cdktn-provider-aws'' False)
   \<and> butlast (calls (script args_yes (Document doc_aws) world_disable_fails)) =
       [ApiGetSource ''cdktf-provider-aws'', ApiGetTarget ''cdktn-provider-aws'',
        RepoCreate ''cdktn-provider-aws'', ApiGetTarget ''cdktn-provider-aws'',
        PutActionsPermissions ''cdktn-provider-aws'' False, Mktemp, Chdir TempDir,
        GitCloneBare ''cdktf-provider-aws'', Chdir RepoGit,
        GitRemoteAdd ''cdktn-provider-aws'', GitPushMirror, Chdir OriginalDir, RmRf,
        Mktemp, Chdir TempDir, GhRepoClone ''cdktn-provider-aws'', FindWorkflows,
        Chdir OriginalDir, RmRf, PutActionsPermissions ''cdktn-provider-aws'' True]
   \<and> RepoDelete ''cdktn-provider-aws''
        \<notin> set (calls (script args_yes (Document doc_aws) world_disable_fails))
   \<and> exitCode (script args_yes (Document doc_aws) world_disable_fails) = 0"
  by code_simp

text \<open>
  C3, as the code has it. A descriptor whose source repository does not exist (action
  CreateFresh) is left out of the migration loop: the script neither creates the
  repository nor toggles its Actions permissions nor clones or deletes it, provided no
  descriptor on the Fork path has the same target name. Whenever the script writes
  \<^verbatim>\<open>import.tf\<close>, the document is the join of \<open>importLines\<close> for the probe results:
  seven header lines, the import blocks of the descriptors on the Fork path, and the
  closing note. The note lists the descriptor, and the document has no import block for
  it: none is generated for it, and no \<^verbatim>\<open>id\<close> line carries its name.
\<close>

theorem create_fresh_is_not_created_by_the_script:
  assumes "stackDir a \<noteq> None" and "onlyRepos a = None \<or> excludeRepos a = []"
    and "parseCdkTfJson cdkTfJson = Inr repos"
    and "probe w (filterRepositories repos (onlyRepos a) (excludeRepos a)) ([], False, []) =
           (results, hasConflicts, h)"
    and "d \<in> set results" and "action d = CreateFresh"
    and "\<forall>x\<in>set results. action x = Fork \<longrightarrow> name x \<noteq> name d"
  shows "RepoCreate (name d) \<notin> set (calls (script a (Document cdkTfJson) w))
       \<and> PutActionsPermissions (name d) False \<notin> set (calls (script a (Document cdkTfJson) w))
       \<and> PutActionsPermissions (name d) True \<notin> set (calls (script a (Document cdkTfJson) w))
       \<and> GitRemoteAdd (name d) \<notin> set (calls (script a (Document cdkTfJson) w))
       \<and> GhRepoClone (name d) \<notin> set (calls (script a (Document cdkTfJson) w))
       \<and> RepoDelete (name d) \<notin> set (calls (script a (Document cdkTfJson) w))
       \<and> (\<forall>doc. importTf (script a (Document cdkTfJson) w) = Some doc \<longrightarrow>
             doc = join [CHR 0x0A] (importLines (now w) results)
             \<and> importLines (now w) results =
                 take 7 (importLines (now w) results) @
                 concat (map importBlock (filter (\<lambda>x. action x = Fork) results)) @
                 freshNote results
             \<and> noteLine (name d) \<in> set (freshNote results)
             \<and> noteLine (name d) \<in> set (importLines (now w) results)
             \<and> idLine (name d) \<notin> set (importLines (now w) results)
             \<and> importBlock d = [])"
proof -
  have cmds: "RepoCreate (name d) \<notin> set (calls (script a (Document cdkTfJson) w))
       \<and> PutActionsPermissions (name d) False \<notin> set (calls (script a (Document cdkTfJson) w))
       \<and> PutActionsPermissions (name d) True \<notin> set (calls (script a (Document cdkTfJson) w))
       \<and> GitRemoteAdd (name d) \<notin> set (calls (script a (Document cdkTfJson) w))
       \<and> GhRepoClone (name d) \<notin> set (calls (script a (Document cdkTfJson) w))
       \<and> RepoDelete (name d) \<notin> set (calls (script a (Document cdkTfJson) w))"
    using create_fresh_no_commands[OF assms] by blast
  have n1: "noteLine (name d) \<in> set (freshNote results)"
    using noteLine_freshNote[OF assms(5,6)] .
  have sh: "importLines (now w) results =
                 take 7 (importLines (now w) results) @
                 concat (map importBlock (filter (\<lambda>x. action x = Fork) results)) @
                 freshNote results"
    by (rule importLines_shape)
  have n2: "noteLine (name d) \<in> set (importLines (now w) results)"
    using n1 by (simp add: importLines_def)
  have n3: "idLine (name d) \<notin> set (importLines (now w) results)"
    using idLine_importLines[of "name d" "now w" results] assms(7) by blast
  have n4: "importBlock d = []" using assms(6) by (simp add: importBlock_def)
  have doc: "\<And>doc. importTf (script a (Document cdkTfJson) w) = Some doc \<Longrightarrow>
               doc = join [CHR 0x0A] (importLines (now w) results)"
    using importTf_after_probe[OF assms(1-4)] by (simp add: generateImportBlocks_def)
  show ?thesis using cmds n1 sh n2 n3 n4 doc by blast
qed

theorem create_fresh_witness:
  "RepoCreate ''cdktn-provider-google'' \<notin> set (calls (script args_yes (Document doc_two) world_mixed))
   \<and> PutActionsPermissions ''cdktn-provider-google'' False
        \<notin> set (calls (script args_yes (Document doc_two) world_mixed))
   \<and> PutActionsPermissions ''cdktn-provider-google'' True
        \<notin> set (calls (script args_yes (Document doc_two) world_mixed))
   \<and> importTf (script args_yes (Document doc_two) world_mixed) =
        Some (join [CHR 0x0A] (importLines ''2025-12-10T00:00:00.000Z'' [state_aws, state_google]))
   \<and> noteLine ''cdktn-provider-google''
        \<in> set (importLines ''2025-12-10T00:00:00.000Z'' [state_aws, state_google])
   \<and> idLine ''cdktn-provider-google''
        \<notin> set (importLines ''2025-12-10T00:00:00.000Z'' [state_aws, state_google])"
proof -
  have 1: "stackDir args_yes \<noteq> None" by (simp add: args_yes_def)
  have 2: "onlyRepos args_yes = None \<or> excludeRepos args_yes = []" by (simp add: args_yes_def)
  have 4: "probe world_mixed
             (filterRepositories [repo_aws, repo_google] (onlyRepos args_yes) (excludeRepos args_yes))
             ([], False, []) =
           ([state_aws, state_google], False,
            [ApiGetSource ''cdktf-provider-aws'', ApiGetTarget ''cdktn-provider-aws'',
             ApiGetSource ''cdktf-provider-google'', ApiGetTarget ''cdktn-provider-google''])"
    by (simp add: filter_args_yes repo_aws_def repo_google_def state_aws_def state_google_def
        checkSourceRepo_def checkTargetRepo_def exec_def world_mixed_def)
  have 5: "state_google \<in> set [state_aws, state_google]" by simp
  have 6: "action state_google = CreateFresh" by (simp add: state_google_def)
  have 7: "\<forall>x\<in>set [state_aws, state_google]. action x = Fork \<longrightarrow> name x \<noteq> name state_google"
    by (simp add: state_aws_def state_google_def)
  have e: "importTf (script args_yes (Document doc_two) world_mixed) =
             Some (generateImportBlocks ''2025-12-10T00:00:00.000Z'' [state_aws, state_google])"
    by code_simp
  have nw: "now world_mixed = ''2025-12-10T00:00:00.000Z''" by (simp add: world_mixed_def)
  have ng: "name state_google = ''cdktn-provider-google''" by (simp add: state_google_def)
  note t = create_fresh_is_not_created_by_the_script[OF 1 2 parse_doc_two 4 5 6 7]
  have cmds: "RepoCreate ''cdktn-provider-google'' \<notin> set (calls (script args_yes (Document doc_two) world_mixed))
   \<and> PutActionsPermissions ''cdktn-provider-google'' False
        \<notin> set (calls (script args_yes (Document doc_two) world_mixed))
   \<and> PutActionsPermissions ''cdktn-provider-google'' True
        \<notin> set (calls (script args_yes (Document doc_two) world_mixed))"
    using t unfolding ng by blast
  have d: "generateImportBlocks ''2025-12-10T00:00:00.000Z'' [state_aws, state_google] =
             join [CHR 0x0A] (importLines ''2025-12-10T00:00:00.000Z'' [state_aws, state_google])
           \<and> noteLine ''cdktn-provider-google''
                \<in> set (importLines ''2025-12-10T00:00:00.000Z'' [state_aws, state_google])
           \<and> idLine ''cdktn-provider-google''
                \<notin> set (importLines ''2025-12-10T00:00:00.000Z'' [state_aws, state_google])"
    using t e unfolding ng nw by blast
  show ?thesis using cmds d e by simp
qed

text \<open>
  The claim as stated fails on a single descriptor without source repository: in execute
  mode the run consists of the two queries and the writing of \<^verbatim>\<open>import.tf\<close>.
\<close>

theorem create_fresh_counterexample:
  "map action (fst (probe world_no_source [repo_aws] ([], False, []))) = [CreateFresh]
   \<and> butlast (calls (script args_yes (Document doc_aws) world_no_source)) =
       [ApiGetSource ''cdktf-provider-aws'', ApiGetTarget ''cdktn-provider-aws'']
   \<and> RepoCreate ''cdktn-provider-aws'' \<notin> set (calls (script args_yes (Document doc_aws) world_no_source))
   \<and> exitCode (script args_yes (Document doc_aws) world_no_source) = 0"
  by code_simp

text \<open>
  C4, as the code has it. The last step for a repository on the Fork path re-enables
  Actions; the command that lets workflows approve pull requests
  (\<open>enableActionsToApprovePRs\<close>) is never issued by the script.
\<close>

theorem final_step_reenables_actions_only:
  "(\<forall>n. PutWorkflowPermissions n \<notin> set (calls (script a snap w)))
   \<and> (createIndependentRepository w (sourceName r) (name r) h = (Inr b, h1) \<longrightarrow>
        migrateAll w (r # rs) h =
          migrateAll w rs
            (let h3 = fixTeamNames w (name r) h1 @ [PutActionsPermissions (name r) True]
             in if rs \<noteq> [] then h3 @ [Sleep 5000] else h3))"
proof (intro conjI allI impI)
  fix n
  show "PutWorkflowPermissions n \<notin> set (calls (script a snap w))"
  proof
    assume "PutWorkflowPermissions n \<in> set (calls (script a snap w))"
    then have "(\<exists>src tgt. pipelineCall src tgt (PutWorkflowPermissions n))"
      using script_calls_general[of a snap w] by (auto simp: list_all_iff)
    then show False by simp
  qed
next
  assume "createIndependentRepository w (sourceName r) (name r) h = (Inr b, h1)"
  then show "migrateAll w (r # rs) h =
          migrateAll w rs
            (let h3 = fixTeamNames w (name r) h1 @ [PutActionsPermissions (name r) True]
             in if rs \<noteq> [] then h3 @ [Sleep 5000] else h3)"
    by (simp add: Let_def enableGitHubActions_def exec_def)
qed

theorem final_step_witness:
  "PutWorkflowPermissions ''cdktn-provider-aws'' \<notin> set (calls (script args_yes (Document doc_aws) world_ok))
   \<and> migrateAll world_ok [state_aws] probes_aws =
       (Inr (),
        probes_aws @
        [RepoCreate ''cdktn-provider-aws'', ApiGetTarget ''cdktn-provider-aws'',
         PutActionsPermissions ''cdktn-provider-aws'' False, Mktemp, Chdir TempDir,
         GitCloneBare ''cdktf-provider-aws'', Chdir RepoGit,
         GitRemoteAdd ''cdktn-provider-aws'', GitPushMirror, Chdir OriginalDir, RmRf,
         Mktemp, Chdir TempDir, GhRepoClone ''cdktn-provider-aws'', FindWorkflows,
         Chdir OriginalDir, RmRf, PutActionsPermissions ''cdktn-provider-aws'' True])"
proof -
  let ?h1 = "probes_aws @
        [RepoCreate ''cdktn-provider-aws'', ApiGetTarget ''cdktn-provider-aws'',
         PutActionsPermissions ''cdktn-provider-aws'' False, Mktemp, Chdir TempDir,
         GitCloneBare ''cdktf-provider-aws'', Chdir RepoGit,
         GitRemoteAdd ''cdktn-provider-aws'', GitPushMirror, Chdir OriginalDir, RmRf]"
  have c: "createIndependentRepository world_ok (sourceName state_aws) (name state_aws) probes_aws =
             (Inr True, ?h1)"
    by (simp add: createIndependentRepository_def createEmptyRepository_def maxAttempts_def
        disableGitHubActions_def migrateRepositoryHistory_def exec_def world_ok_def
        state_aws_def probes_aws_def)
  have f: "fixTeamNames world_ok (name state_aws) ?h1 =
             ?h1 @ [Mktemp, Chdir TempDir, GhRepoClone ''cdktn-provider-aws'', FindWorkflows,
                    Chdir OriginalDir, RmRf]"
    by (simp add: fixTeamNames_def fixTeamNamesBody_def fixCodeOwners_def empty_tree_def
        world_ok_def state_aws_def probes_aws_def)
  note t = final_step_reenables_actions_only[of args_yes "Document doc_aws" world_ok state_aws
      probes_aws True ?h1 "[]"]
  show ?thesis
    using t[THEN conjunct1, rule_format, of "''cdktn-provider-aws''"]
      t[THEN conjunct2, rule_format, OF c] f
    by (simp add: state_aws_def)
qed

text \<open>
  The claim as stated fails on a run in which every step succeeds: the command before the
  writing of \<^verbatim>\<open>import.tf\<close> re-enables Actions and no command grants the approval of
  pull requests.
\<close>

theorem final_step_counterexample:
  "last (butlast (calls (script args_yes (Document doc_aws) world_ok))) =
     PutActionsPermissions ''cdktn-provider-aws'' True
   \<and> PutWorkflowPermissions ''cdktn-provider-aws''
        \<notin> set (calls (script args_yes (Document doc_aws) world_ok))
   \<and> exitCode (script args_yes (Document doc_aws) world_ok) = 0"
  by code_simp

text \<open>
  C5. For the same probe results, two runs of the generator differ in the time-stamp line
  only: the arrays of lines agree except at index 1, and the document is a fixed prefix,
  the time stamp, and a suffix that depends on the probe results alone.
\<close>

theorem artifact_differs_only_in_timestamp_line:
  "importLines ts1 repos = (importLines ts2 repos)[1 := ''# Generated at: '' @ ts1]
   \<and> (\<exists>suffix. \<forall>ts. generateImportBlocks ts repos =
          ''# Generated by fork-and-import.js'' @ [CHR 0x0A] @ ''# Generated at: '' @ ts @ suffix)"
proof
  show "importLines ts1 repos = (importLines ts2 repos)[1 := ''# Generated at: '' @ ts1]"
    by (simp add: importLines_def)
next
  let ?rest = "[''# Import blocks for forked GitHub repositories'', '''',
      ''# Only repository resources are imported. Other resources (labels, webhooks, etc.)'',
      ''# will be created fresh by Terraform, which is acceptable for settings.'', '''']
     @ concat (map importBlock repos) @ freshNote repos"
  have "\<forall>ts. generateImportBlocks ts repos =
          ''# Generated by fork-and-import.js'' @ [CHR 0x0A] @ ''# Generated at: '' @ ts @
          ([CHR 0x0A] @ join [CHR 0x0A] ?rest)"
    by (simp add: generateImportBlocks_def importLines_def)
  then show "\<exists>suffix. \<forall>ts. generateImportBlocks ts repos =
          ''# Generated by fork-and-import.js'' @ [CHR 0x0A] @ ''# Generated at: '' @ ts @ suffix"
    by blast
qed

theorem artifact_timestamp_witness:
  "importLines ''2025-12-10T00:00:00.000Z'' [state_aws, state_google] =
     (importLines ''2026-01-01T00:00:00.000Z'' [state_aws, state_google])
       [1 := ''# Generated at: 2025-12-10T00:00:00.000Z'']"
  using artifact_differs_only_in_timestamp_line
          [of "''2025-12-10T00:00:00.000Z''" "[state_aws, state_google]" "''2026-01-01T00:00:00.000Z''"]
  by simp

text \<open>
  C6. On a name with the prefix \<^verbatim>\<open>cdktn-\<close>, \<open>getSourceRepoName\<close> puts
  \<^verbatim>\<open>cdktf-\<close> in its place, and putting \<^verbatim>\<open>cdktn-\<close> back recovers the name, so the
  function is injective on such names; any other name is returned unchanged.
\<close>

theorem getSourceRepoName_prefix_substitution:
  "(prefix ''cdktn-'' n \<longrightarrow>
      getSourceRepoName n = ''cdktf-'' @ drop 6 n \<and> restoreTargetRepoName (getSourceRepoName n) = n)
   \<and> (\<not> prefix ''cdktn-'' n \<longrightarrow> getSourceRepoName n = n)
   \<and> inj_on getSourceRepoName {m. prefix ''cdktn-'' m}"
  by (auto simp: getSourceRepoName_def restoreTargetRepoName_def prefix_def inj_on_def)

theorem getSourceRepoName_witness:
  "getSourceRepoName ''cdktn-provider-aws'' = ''cdktf-provider-aws'' \<and>
   restoreTargetRepoName (getSourceRepoName ''cdktn-provider-aws'') = ''cdktn-provider-aws'' \<and>
   getSourceRepoName ''projen'' = ''projen''"
proof -
  have a: "prefix ''cdktn-'' ''cdktn-provider-aws''" by simp
  have b: "\<not> prefix ''cdktn-'' ''projen''" by simp
  have h1: "getSourceRepoName ''cdktn-provider-aws'' = ''cdktf-'' @ drop 6 ''cdktn-provider-aws''"
    and h2: "restoreTargetRepoName (getSourceRepoName ''cdktn-provider-aws'') = ''cdktn-provider-aws''"
    using getSourceRepoName_prefix_substitution[of "''cdktn-provider-aws''"] a by blast+
  have h3: "getSourceRepoName ''projen'' = ''projen''"
    using getSourceRepoName_prefix_substitution[of "''projen''"] b by blast
  have g1: "getSourceRepoName ''cdktn-provider-aws'' = ''cdktf-provider-aws''"
    using h1 by simp
  show ?thesis using g1 h2 h3 by blast
qed

text \<open>
  C7, as the code has it. For a non-empty selection \<open>X\<close>, filtering with
  \<^verbatim>\<open>--only=X\<close> and with \<^verbatim>\<open>--exclude=X\<close> splits the descriptors in two: together the
  results cover \<open>S\<close> and they share no descriptor. An empty selection filters nothing
  either way.
\<close>

theorem filter_only_exclude_partition:
  "(X \<noteq> [] \<longrightarrow>
      set (filterRepositories S (Some X) []) \<union> set (filterRepositories S None X) = set S \<and>
      set (filterRepositories S (Some X) []) \<inter> set (filterRepositories S None X) = {})
   \<and> filterRepositories S (Some []) [] = S \<and> filterRepositories S None [] = S"
  by (auto simp: filterRepositories_def)

theorem filter_partition_witness:
  "set (filterRepositories [repo_aws, repo_google] (Some [''cdktn-provider-aws'']) []) \<union>
     set (filterRepositories [repo_aws, repo_google] None [''cdktn-provider-aws'']) =
       set [repo_aws, repo_google]
   \<and> set (filterRepositories [repo_aws, repo_google] (Some [''cdktn-provider-aws'']) []) \<inter>
     set (filterRepositories [repo_aws, repo_google] None [''cdktn-provider-aws'']) = {}"
  using filter_only_exclude_partition[of "[''cdktn-provider-aws'']" "[repo_aws, repo_google]"]
  by simp

text \<open>The claim as stated fails for the empty selection: both results are all of \<open>S\<close>.\<close>

theorem filter_partition_counterexample:
  "\<not> (set (filterRepositories [repo_aws] (Some []) []) \<union> set (filterRepositories [repo_aws] None []) =
        set [repo_aws]
      \<and> set (filterRepositories [repo_aws] (Some []) []) \<inter> set (filterRepositories [repo_aws] None []) = {})"
  by (simp add: filterRepositories_def)

text \<open>
  C8. The commit does not follow the changes. When CODEOWNERS names the old team and the
  clone has no workflow file, the file is rewritten and \<open>fixTeamNames\<close> returns without
  commit or push. When neither CODEOWNERS nor the only workflow file contains an old name,
  CODEOWNERS is written back unchanged, counted as a change, and a commit is attempted.
\<close>

theorem fixTeamNames_commit_does_not_follow_changes:
  "content tree_codeowners_only ''.github/CODEOWNERS'' = Some ''* @cdktf/tf-cdk-team''
   \<and> fixTeamNames world_codeowners_only ''cdktn-provider-aws'' [] =
       [Mktemp, Chdir TempDir, GhRepoClone ''cdktn-provider-aws'',
        WriteFile ''.github/CODEOWNERS'' ''* @cdktn-io/team-cdk-terrain'',
        FindWorkflows, Chdir OriginalDir, RmRf]
   \<and> fixTeamNames world_up_to_date ''cdktn-provider-aws'' [] =
       [Mktemp, Chdir TempDir, GhRepoClone ''cdktn-provider-aws'',
        WriteFile ''.github/CODEOWNERS'' ''* @cdktn-io/team-cdk-terrain'',
        FindWorkflows, GitConfigName, GitConfigEmail, GitAdd, GitCommit,
        Chdir OriginalDir, RmRf]"
  by code_simp

text \<open>
  C9, as the code has it. Without a stack directory, without \<^verbatim>\<open>cdk.tf.json\<close> or with
  an unreadable one, the script exits with code 1 and does nothing else. A document
  without the repository collection is not an error: the extractor returns no descriptor
  and, the arguments being valid, the script exits with code 0 and does nothing else.
\<close>

theorem missing_document_fails_missing_collection_is_empty:
  "(snap = NoStackDir \<or> snap = NoCdkTfJson \<or> snap = Unparseable \<longrightarrow>
      script a snap w = \<lparr>exitCode = 1, calls = [], importTf = None\<rparr>)
   \<and> (resource cdkTfJson = None \<or>
      (\<exists>res. resource cdkTfJson = Some res \<and> map_of res ''github_repository'' = None) \<longrightarrow>
        parseCdkTfJson cdkTfJson = Inr [] \<and>
        (stackDir a \<noteq> None \<and> (onlyRepos a = None \<or> excludeRepos a = []) \<longrightarrow>
           script a (Document cdkTfJson) w = \<lparr>exitCode = 0, calls = [], importTf = None\<rparr>))"
proof (intro conjI impI)
  assume "snap = NoStackDir \<or> snap = NoCdkTfJson \<or> snap = Unparseable"
  then show "script a snap w = \<lparr>exitCode = 1, calls = [], importTf = None\<rparr>"
    by (auto simp: script_def main_def)
next
  assume abs: "resource cdkTfJson = None \<or>
      (\<exists>res. resource cdkTfJson = Some res \<and> map_of res ''github_repository'' = None)"
  then have g: "githubRepos cdkTfJson = []" by (auto simp: githubRepos_def)
  then show p: "parseCdkTfJson cdkTfJson = Inr []" by (simp add: parseCdkTfJson_def)
  assume "stackDir a \<noteq> None \<and> (onlyRepos a = None \<or> excludeRepos a = [])"
  then show "script a (Document cdkTfJson) w = \<lparr>exitCode = 0, calls = [], importTf = None\<rparr>"
    using p by (auto simp: script_def main_def filterRepositories_def Let_def split: option.splits)
qed

theorem missing_document_witness:
  "script args_yes NoCdkTfJson world_ok = \<lparr>exitCode = 1, calls = [], importTf = None\<rparr>
   \<and> parseCdkTfJson \<lparr>resource = Some []\<rparr> = Inr []
   \<and> script args_yes (Document \<lparr>resource = Some []\<rparr>) world_ok =
       \<lparr>exitCode = 0, calls = [], importTf = None\<rparr>"
  using missing_document_fails_missing_collection_is_empty
          [of NoCdkTfJson args_yes world_ok "\<lparr>resource = Some []\<rparr>"]
  by (simp add: args_yes_def)

text \<open>The claim as stated fails on a document without \<^verbatim>\<open>resource\<close>: the exit code is 0.\<close>

theorem absent_collection_counterexample:
  "parseCdkTfJson \<lparr>resource = None\<rparr> = Inr []
   \<and> script args_yes (Document \<lparr>resource = None\<rparr>) world_ok =
       \<lparr>exitCode = 0, calls = [], importTf = None\<rparr>"
  by (simp add: parseCdkTfJson_def githubRepos_def script_def main_def args_yes_def
      filterRepositories_def)

text \<open>
  C10. The probing loop never stops early. With a conflict already recorded, a step still
  queries source and target of the next descriptor and appends its record; and over the
  whole of the remaining descriptors \<open>rs\<close> the loop issues both queries for each, in
  order, and appends one record per descriptor.
\<close>

theorem probe_never_short_circuits:
  "probe w (r # rs) (results, True, h) =
     probe w rs
       (results @
          [\<lparr>resourceName = resourceName r, name = name r, sourceName = sourceName r,
            sourceExists = succeeds w h (ApiGetSource (sourceName r)),
            targetExists = succeeds w (h @ [ApiGetSource (sourceName r)]) (ApiGetTarget (name r)),
            action = (if succeeds w h (ApiGetSource (sourceName r)) then Fork else CreateFresh)\<rparr>],
        True, h @ [ApiGetSource (sourceName r), ApiGetTarget (name r)])
   \<and> (\<exists>new. probe w rs (results, True, h) = (results @ new, True, h @ probeCalls rs) \<and>
          map repo.truncate new = rs \<and>
          (\<forall>x\<in>set new. action x = (if sourceExists x then Fork else CreateFresh)))"
proof
  show "probe w (r # rs) (results, True, h) =
     probe w rs
       (results @
          [\<lparr>resourceName = resourceName r, name = name r, sourceName = sourceName r,
            sourceExists = succeeds w h (ApiGetSource (sourceName r)),
            targetExists = succeeds w (h @ [ApiGetSource (sourceName r)]) (ApiGetTarget (name r)),
            action = (if succeeds w h (ApiGetSource (sourceName r)) then Fork else CreateFresh)\<rparr>],
        True, h @ [ApiGetSource (sourceName r), ApiGetTarget (name r)])"
    by (simp add: checkSourceRepo_def checkTargetRepo_def exec_def)
next
  show "\<exists>new. probe w rs (results, True, h) = (results @ new, True, h @ probeCalls rs) \<and>
          map repo.truncate new = rs \<and>
          (\<forall>x\<in>set new. action x = (if sourceExists x then Fork else CreateFresh))"
    using probe_acc[of w rs results True h] by simp
qed

theorem probe_never_short_circuits_witness:
  "snd (snd (probe world_conflict [repo_aws, repo_google] ([], True, []))) =
     [ApiGetSource ''cdktf-provider-aws'', ApiGetTarget ''cdktn-provider-aws'',
      ApiGetSource ''cdktf-provider-google'', ApiGetTarget ''cdktn-provider-google'']
   \<and> map repo.truncate (fst (probe world_conflict [repo_aws, repo_google] ([], True, []))) =
       [repo_aws, repo_google]"
  using probe_never_short_circuits[of world_conflict repo_aws "[repo_aws, repo_google]" "[]" "[]"]
  by (auto simp: probeCalls_def repo_aws_def repo_google_def checkSourceRepo_def
      checkTargetRepo_def exec_def world_conflict_def)

end
